theory Spec2Isabelle
  imports Main "HOL-Library.AList" "HOL-Library.Sublist"
begin

section \<open>The command-line dispatcher of pyannote-audio\<close>

text \<open>
  The development embeds \<^verbatim>\<open>main\<close> of
  \<^verbatim>\<open>pyannote/audio/applications/pyannote_audio.py\<close>. The function is a linear script:
  it reads the dictionary returned by docopt, fills a dictionary \<^verbatim>\<open>params\<close>, and calls
  into collaborators (torch, pathlib, the five Application classes). Everything the script
  does to the outside world is recorded, in order, in a trace of events; every exception
  is a value, and an exception stops the script while the trace so far is kept.
\<close>

subsection \<open>Python values and exceptions\<close>

datatype task =
  SpeechActivityDetection | SpeakerChangeDetection | OverlapDetection
  | SpeakerEmbedding | DomainClassification

datatype device = Cuda | Cpu

text \<open>
  The values stored in \<^verbatim>\<open>params\<close>. Floats are kept abstract (type \<open>'f\<close>): the script
  only converts strings with \<^verbatim>\<open>float\<close> and forwards the result. \<open>PPath s\<close> is the object
  \<^verbatim>\<open>Path(s)\<close>.
\<close>

datatype 'f pyval =
  PInt int | PFloat 'f | PStr string | PBool bool | PPath string | PDevice device

text \<open>
  Exceptions with their text (\<^verbatim>\<open>str(e)\<close>). \<open>SystemExit\<close> and \<open>KeyboardInterrupt\<close> derive
  from \<^verbatim>\<open>BaseException\<close> only, so \<^verbatim>\<open>except Exception\<close> does not catch them.
  \<open>OtherException c m\<close> is an exception of any other class \<open>c\<close>. \<open>WithContext x c\<close> is the
  exception \<open>x\<close> raised while \<open>c\<close> was being handled: Python stores \<open>c\<close> in the
  \<^verbatim>\<open>__context__\<close> of \<open>x\<close>.
\<close>

datatype exn =
  NameError string | UnboundLocalError string | TypeError string | ValueError string
  | FileNotFoundError string | RuntimeError string | OtherException string string
  | SystemExit string | KeyboardInterrupt | WithContext exn exn

fun exn_str :: "exn \<Rightarrow> string" where
  "exn_str (NameError m) = m"
| "exn_str (UnboundLocalError m) = m"
| "exn_str (TypeError m) = m"
| "exn_str (ValueError m) = m"
| "exn_str (FileNotFoundError m) = m"
| "exn_str (RuntimeError m) = m"
| "exn_str (OtherException c m) = m"
| "exn_str (SystemExit m) = m"
| "exn_str KeyboardInterrupt = []"
| "exn_str (WithContext x c) = exn_str x"

fun is_Exception :: "exn \<Rightarrow> bool" where
  "is_Exception (WithContext x c) = is_Exception x"
| "is_Exception (SystemExit m) = False"
| "is_Exception KeyboardInterrupt = False"
| "is_Exception e = True"

subsection \<open>The parsed command line\<close>

text \<open>
  The dictionary \<^verbatim>\<open>arg\<close> returned by docopt for the usage text of the module. Commands and
  flags are booleans; an option with a \<^verbatim>\<open>[default: ...]\<close> annotation is always a string;
  an option without one, and a positional argument that is not part of the matched usage
  pattern, is \<^verbatim>\<open>None\<close>.
\<close>

record arg =
  cmd_sad :: bool
  cmd_scd :: bool
  cmd_ovl :: bool
  cmd_emb :: bool
  cmd_dom :: bool
  cmd_train :: bool
  cmd_validate :: bool
  cmd_apply :: bool
  pos_root :: "string option"
  pos_train :: "string option"
  pos_validate :: "string option"
  pos_protocol :: string
  opt_subset :: "string option"
  opt_gpu :: bool
  opt_from :: string
  opt_to :: string
  opt_batch :: string
  opt_step :: string
  opt_duration :: "string option"
  opt_metric :: "string option"
  opt_pretrained :: "string option"
  opt_every :: string
  opt_evergreen :: bool
  opt_parallel :: "string option"
  opt_purity :: string
  opt_diarization :: bool
  opt_precision :: string

text \<open>
  What docopt returns for one task command, one mode command, the positional directory of
  that mode and a protocol when no option is given: the \<^verbatim>\<open>[default: ...]\<close> values of the
  usage text (\<^verbatim>\<open>--from\<close> 0, \<^verbatim>\<open>--to\<close> 100, \<^verbatim>\<open>--batch\<close> 32, \<^verbatim>\<open>--step\<close> 0.25, \<^verbatim>\<open>--every\<close> 1,
  \<^verbatim>\<open>--purity\<close> 0.9, \<^verbatim>\<open>--precision\<close> 0.8), \<^verbatim>\<open>False\<close> for flags and \<^verbatim>\<open>None\<close> elsewhere.
\<close>

definition no_options :: arg where
  "no_options =
     \<lparr>cmd_sad = False, cmd_scd = False, cmd_ovl = False, cmd_emb = False, cmd_dom = False,
      cmd_train = False, cmd_validate = False, cmd_apply = False,
      pos_root = None, pos_train = None, pos_validate = None, pos_protocol = [],
      opt_subset = None, opt_gpu = False, opt_from = ''0'', opt_to = ''100'',
      opt_batch = ''32'', opt_step = ''0.25'', opt_duration = None, opt_metric = None,
      opt_pretrained = None, opt_every = ''1'', opt_evergreen = False, opt_parallel = None,
      opt_purity = ''0.9'', opt_diarization = False, opt_precision = ''0.8''\<rparr>"

datatype mode = Train | Validate | Apply

text \<open>The mode commands that are true, in the order in which \<^verbatim>\<open>main\<close> tests them.\<close>

definition modes :: "arg \<Rightarrow> mode list" where
  "modes a =
     (if cmd_train a then [Train] else []) @
     (if cmd_validate a then [Validate] else []) @
     (if cmd_apply a then [Apply] else [])"

subsection \<open>Collaborators and the trace\<close>

text \<open>
  An Application instance is identified by how it was built: the class, the constructor
  (\<^verbatim>\<open>Application(...)\<close>, \<^verbatim>\<open>from_train_dir\<close>, \<^verbatim>\<open>from_validate_dir\<close>), the directory and the
  \<^verbatim>\<open>training\<close> flag.
\<close>

datatype ctor = Init | From_train_dir | From_validate_dir

datatype application = App task ctor string bool

type_synonym 'f params = "(string \<times> 'f pyval) list"

datatype 'f event =
  Probe device
  | Resolve string
  | HubLoad string string
  | Construct application
  | Lifecycle application mode string "'f params"

text \<open>
  The outside world: which collaborator calls raise, the file system, the model registry,
  the number of CPUs, \<^verbatim>\<open>float\<close> on strings, and
  \<^verbatim>\<open>getattr(app.task_, name, None)\<close> of an Application instance.
\<close>

record 'f env =
  raises :: "'f event \<Rightarrow> exn option"
  expanduser :: "string \<Rightarrow> string"
  path_exists :: "string \<Rightarrow> bool"
  realpath :: "string \<Rightarrow> string"
  hub_load :: "string \<Rightarrow> string \<Rightarrow> exn + 'f pyval"
  cpu_count :: int
  py_float :: "string \<Rightarrow> 'f option"
  task_attr :: "application \<Rightarrow> string \<Rightarrow> 'f pyval option"

text \<open>
  A piece of the script yields the events it performed and either the exception that
  stopped it or its result.
\<close>

type_synonym ('f, 'a) run = "'f event list \<times> (exn + 'a)"

definition ret :: "'a \<Rightarrow> ('f, 'a) run" where
  "ret x = ([], Inr x)"

definition lift :: "exn + 'a \<Rightarrow> ('f, 'a) run" where
  "lift r = ([], r)"

definition bind_run :: "('f, 'a) run \<Rightarrow> ('a \<Rightarrow> ('f, 'b) run) \<Rightarrow> ('f, 'b) run" where
  "bind_run m f =
     (case snd m of
        Inl e \<Rightarrow> (fst m, Inl e)
      | Inr x \<Rightarrow> (fst m @ fst (f x), snd (f x)))"

definition perform :: "'f env \<Rightarrow> 'f event \<Rightarrow> ('f, unit) run" where
  "perform env ev = ([ev], case raises env ev of Some e \<Rightarrow> Inl e | None \<Rightarrow> Inr ())"

subsection \<open>Built-in functions\<close>

text \<open>
  \<^verbatim>\<open>int(s)\<close> on a string, base 10, for ASCII input: surrounding whitespace is dropped, one
  sign is allowed, and the digits may be grouped by single underscores.
\<close>

definition is_space :: "char \<Rightarrow> bool" where
  "is_space c = (c \<in> set [CHR '' '', CHR 0x09, CHR 0x0A, CHR 0x0B, CHR 0x0C, CHR 0x0D])"

definition is_digit :: "char \<Rightarrow> bool" where
  "is_digit c = (c \<in> set ''0123456789'')"

definition strip :: "string \<Rightarrow> string" where
  "strip s = rev (dropWhile is_space (rev (dropWhile is_space s)))"

fun digit_groups :: "string \<Rightarrow> bool" where
  "digit_groups [] = False"
| "digit_groups [c] = is_digit c"
| "digit_groups (c # d # cs) =
     (is_digit c \<and> (if d = CHR ''_'' then digit_groups cs else digit_groups (d # cs)))"

definition digits_value :: "string \<Rightarrow> nat" where
  "digits_value s = foldl (\<lambda>a c. 10 * a + (of_char c - 48)) 0 (filter is_digit s)"

definition parse_int :: "string \<Rightarrow> int option" where
  "parse_int s =
     (let t = strip s;
          neg = (t \<noteq> [] \<and> hd t = CHR ''-'');
          body = (if t \<noteq> [] \<and> (hd t = CHR ''-'' \<or> hd t = CHR ''+'') then tl t else t)
      in if digit_groups body
         then Some (if neg then - int (digits_value body) else int (digits_value body))
         else None)"

definition py_int :: "string \<Rightarrow> exn + int" where
  "py_int s =
     (case parse_int s of
        Some n \<Rightarrow> Inr n
      | None \<Rightarrow> Inl (ValueError (''invalid literal for int() with base 10: '' @ s)))"

definition float_of :: "'f env \<Rightarrow> string \<Rightarrow> exn + 'f" where
  "float_of env s =
     (case py_float env s of
        Some x \<Rightarrow> Inr x
      | None \<Rightarrow> Inl (ValueError (''could not convert string to float: '' @ s)))"

text \<open>\<^verbatim>\<open>str(n)\<close> of an integer, as an f-string formats it.\<close>

fun str_nat :: "nat \<Rightarrow> string" where
  "str_nat n =
     (if n < 10 then [char_of (48 + n)] else str_nat (n div 10) @ [char_of (48 + n mod 10)])"

definition str_int :: "int \<Rightarrow> string" where
  "str_int i = (if i < 0 then CHR ''-'' # str_nat (nat (- i)) else str_nat (nat i))"

text \<open>
  \<^verbatim>\<open>Path(x)\<close>: a string is accepted, \<^verbatim>\<open>None\<close> is a type error.
  \<^verbatim>\<open>Path(p).expanduser().resolve(strict=True)\<close> asks the file system and fails when the
  path does not exist.
\<close>

definition py_Path :: "string option \<Rightarrow> exn + string" where
  "py_Path x =
     (case x of
        Some s \<Rightarrow> Inr s
      | None \<Rightarrow> Inl (TypeError ''expected str, bytes or os.PathLike object, not NoneType''))"

definition resolve_strict :: "'f env \<Rightarrow> string \<Rightarrow> ('f, string) run" where
  "resolve_strict env p =
     ([Resolve (expanduser env p)],
      if path_exists env (expanduser env p) then Inr (realpath env (expanduser env p))
      else Inl (FileNotFoundError (''[Errno 2] No such file or directory: '' @ expanduser env p)))"

declare str_nat.simps [simp del]

subsection \<open>Names of the module\<close>

text \<open>
  The names bound at module level by the import statements and the definition of
  \<^verbatim>\<open>main\<close> (\<^verbatim>\<open>docopt\<close>, \<^verbatim>\<open>Path\<close>, \<^verbatim>\<open>multiprocessing\<close>, \<^verbatim>\<open>torch\<close>, the five Application
  classes), with the module's docstring. A name that \<^verbatim>\<open>main\<close> reads without assigning it
  is looked up here; the only such name that is not a built-in and not in this list is
  \<^verbatim>\<open>sys\<close>, which the module never imports.
\<close>

definition module_globals :: "string list" where
  "module_globals =
     [''__doc__'', ''docopt'', ''Path'', ''multiprocessing'', ''torch'',
      ''SpeechActivityDetection'', ''SpeakerChangeDetection'', ''OverlapDetection'',
      ''SpeakerEmbedding'', ''DomainClassification'', ''main'']"

definition global_name :: "string \<Rightarrow> exn + unit" where
  "global_name n =
     (if n \<in> set module_globals then Inr ()
      else Inl (NameError (''name '' @ [CHR 0x27] @ n @ [CHR 0x27] @ '' is not defined'')))"

text \<open>\<^verbatim>\<open>sys.exit(msg)\<close>: the name \<^verbatim>\<open>sys\<close> is looked up, then \<^verbatim>\<open>SystemExit(msg)\<close> is raised.\<close>

definition sys_exit :: "string \<Rightarrow> ('f, 'a) run" where
  "sys_exit msg =
     bind_run (lift (global_name ''sys'')) (\<lambda>_. lift (Inl (SystemExit msg)))"







fun raised :: "exn \<Rightarrow> exn" where
  "raised (WithContext x c) = raised x"
| "raised e = e"


subsection \<open>The script\<close>

text \<open>Lines 260 to 273: the local variable \<^verbatim>\<open>Application\<close>, unbound when no task command is true.\<close>

definition Application :: "arg \<Rightarrow> exn + task" where
  "Application a =
     (if cmd_sad a then Inr SpeechActivityDetection
      else if cmd_scd a then Inr SpeakerChangeDetection
      else if cmd_ovl a then Inr OverlapDetection
      else if cmd_emb a then Inr SpeakerEmbedding
      else if cmd_dom a then Inr DomainClassification
      else Inl (UnboundLocalError
                  (''local variable '' @ [CHR 0x27] @ ''Application'' @ [CHR 0x27] @
                   '' referenced before assignment'')))"

text \<open>
  Lines 294 to 310: the warm start when \<^verbatim>\<open>--pretrained\<close> is given. \<open>warm_start\<close> is the
  value assigned on line 291, which the message on line 308 formats.
\<close>

definition hub_repo :: string where
  "hub_repo = ''pyannote/pyannote-audio:v2''"

definition could_not_load :: "int \<Rightarrow> exn \<Rightarrow> string" where
  "could_not_load warm_start e =
     ''Could not load '' @ [CHR 0x22] @ str_int warm_start @ [CHR 0x22] @
     '' model from torch.hub.'' @ ''The following exception was raised:'' @
     [CHR 0x0A, CHR 0x0A] @ exn_str e @ [CHR 0x0A, CHR 0x0A]"

text \<open>An exception that leaves an \<^verbatim>\<open>except ... as e\<close> block has \<open>e\<close> as its context.\<close>

definition handling :: "exn \<Rightarrow> ('f, 'a) run \<Rightarrow> ('f, 'a) run" where
  "handling e r = (fst r, case snd r of Inl x \<Rightarrow> Inl (WithContext x e) | Inr y \<Rightarrow> Inr y)"

definition pretrained_warm_start :: "'f env \<Rightarrow> int \<Rightarrow> string option \<Rightarrow> ('f, 'f pyval) run" where
  "pretrained_warm_start env warm_start pretrained =
     (case pretrained of
        None \<Rightarrow> ret (PInt warm_start)
      | Some name \<Rightarrow>
          if path_exists env name then ret (PPath name)
          else (case hub_load env hub_repo name of
                  Inr path \<Rightarrow> ([HubLoad hub_repo name], Inr path)
                | Inl e \<Rightarrow>
                    if is_Exception e
                    then bind_run ([HubLoad hub_repo name], Inr ())
                           (\<lambda>_. handling e (sys_exit (could_not_load warm_start e)))
                    else ([HubLoad hub_repo name], Inl e)))"

text \<open>Lines 284 to 317.\<close>

definition train_branch :: "'f env \<Rightarrow> arg \<Rightarrow> 'f params \<Rightarrow> ('f, 'f params) run" where
  "train_branch env a params =
     bind_run (lift (py_Path (pos_root a))) (\<lambda>p.
     bind_run (resolve_strict env p) (\<lambda>root_dir.
     bind_run (lift (Application a)) (\<lambda>cls.
     let app = App cls Init root_dir True in
     bind_run (perform env (Construct app)) (\<lambda>_.
     let params = AList.update ''subset''
                    (PStr (case opt_subset a of None \<Rightarrow> ''train'' | Some s \<Rightarrow> s)) params in
     bind_run (lift (py_int (opt_from a))) (\<lambda>warm_start.
     bind_run (pretrained_warm_start env warm_start (opt_pretrained a)) (\<lambda>warm_start.
     let params = AList.update ''warm_start'' warm_start params in
     bind_run (lift (py_int (opt_to a))) (\<lambda>epochs.
     let params = AList.update ''epochs'' (PInt epochs) params in
     bind_run (perform env (Lifecycle app Train (pos_protocol a) params)) (\<lambda>_.
     ret params))))))))"

text \<open>Lines 331 to 334.\<close>

definition n_jobs_of :: "'f env \<Rightarrow> arg \<Rightarrow> exn + int" where
  "n_jobs_of env a =
     (case opt_parallel a of None \<Rightarrow> Inr (cpu_count env) | Some n \<Rightarrow> py_int n)"

text \<open>Lines 340 to 348, and again lines 373 to 381.\<close>

definition no_duration :: string where
  "no_duration =
     ''Task has no '' @ [CHR 0x27] @ ''duration'' @ [CHR 0x27] @ '' defined. '' @
     ''Use '' @ [CHR 0x27] @ ''--duration'' @ [CHR 0x27] @ '' option to provide one.''"

definition duration_of :: "'f env \<Rightarrow> arg \<Rightarrow> application \<Rightarrow> exn + 'f pyval" where
  "duration_of env a app =
     (case opt_duration a of
        None \<Rightarrow>
          (case task_attr env app ''duration'' of
             None \<Rightarrow> Inl (ValueError no_duration)
           | Some d \<Rightarrow> Inr d)
      | Some s \<Rightarrow> (case float_of env s of Inl e \<Rightarrow> Inl e | Inr x \<Rightarrow> Inr (PFloat x)))"

text \<open>Lines 355 to 361.\<close>

definition no_metric :: string where
  "no_metric =
     ''Approach has no '' @ [CHR 0x27] @ ''metric'' @ [CHR 0x27] @ '' defined. '' @
     ''Use '' @ [CHR 0x27] @ ''--metric'' @ [CHR 0x27] @ '' option to provide one.''"

definition metric_of :: "'f env \<Rightarrow> arg \<Rightarrow> application \<Rightarrow> exn + 'f pyval" where
  "metric_of env a app =
     (case opt_metric a of
        None \<Rightarrow>
          (case task_attr env app ''metric'' of
             None \<Rightarrow> Inl (ValueError no_metric)
           | Some m \<Rightarrow> Inr m)
      | Some s \<Rightarrow> Inr (PStr s))"

text \<open>Lines 319 to 364.\<close>

definition validate_branch :: "'f env \<Rightarrow> arg \<Rightarrow> 'f params \<Rightarrow> ('f, 'f params) run" where
  "validate_branch env a params =
     bind_run (lift (py_Path (pos_train a))) (\<lambda>p.
     bind_run (resolve_strict env p) (\<lambda>train_dir.
     bind_run (lift (Application a)) (\<lambda>cls.
     let app = App cls From_train_dir train_dir False in
     bind_run (perform env (Construct app)) (\<lambda>_.
     let params = AList.update ''subset''
                    (PStr (case opt_subset a of None \<Rightarrow> ''development'' | Some s \<Rightarrow> s)) params in
     bind_run (lift (py_int (opt_from a))) (\<lambda>start.
     let params = AList.update ''start'' (PInt start) params in
     bind_run (lift (py_int (opt_to a))) (\<lambda>stop.
     let params = AList.update ''end'' (PInt stop) params in
     bind_run (lift (py_int (opt_every a))) (\<lambda>every.
     let params = AList.update ''every'' (PInt every) params in
     let params = AList.update ''chronological'' (PBool (\<not> opt_evergreen a)) params in
     bind_run (lift (py_int (opt_batch a))) (\<lambda>batch_size.
     let params = AList.update ''batch_size'' (PInt batch_size) params in
     bind_run (lift (n_jobs_of env a)) (\<lambda>n_jobs.
     let params = AList.update ''n_jobs'' (PInt n_jobs) params in
     bind_run (lift (float_of env (opt_purity a))) (\<lambda>purity.
     let params = AList.update ''purity'' (PFloat purity) params in
     let params = AList.update ''diarization'' (PBool (opt_diarization a)) params in
     bind_run (lift (float_of env (opt_precision a))) (\<lambda>precision.
     let params = AList.update ''precision'' (PFloat precision) params in
     bind_run (lift (duration_of env a app)) (\<lambda>duration.
     let params = AList.update ''duration'' duration params in
     bind_run (lift (float_of env (opt_step a))) (\<lambda>step.
     let params = AList.update ''step'' (PFloat step) params in
     bind_run (if cmd_emb a
               then bind_run (lift (metric_of env a app)) (\<lambda>metric.
                    ret (AList.update ''metric'' metric params))
               else ret params) (\<lambda>params.
     bind_run (perform env (Lifecycle app Validate (pos_protocol a) params)) (\<lambda>_.
     ret params)))))))))))))))"

text \<open>Lines 366 to 386.\<close>

definition apply_branch :: "'f env \<Rightarrow> arg \<Rightarrow> 'f params \<Rightarrow> ('f, 'f params) run" where
  "apply_branch env a params =
     bind_run (lift (py_Path (pos_validate a))) (\<lambda>p.
     bind_run (resolve_strict env p) (\<lambda>validate_dir.
     bind_run (lift (Application a)) (\<lambda>cls.
     let app = App cls From_validate_dir validate_dir False in
     bind_run (perform env (Construct app)) (\<lambda>_.
     let params = AList.update ''subset''
                    (PStr (case opt_subset a of None \<Rightarrow> ''test'' | Some s \<Rightarrow> s)) params in
     bind_run (lift (py_int (opt_batch a))) (\<lambda>batch_size.
     let params = AList.update ''batch_size'' (PInt batch_size) params in
     bind_run (lift (duration_of env a app)) (\<lambda>duration.
     let params = AList.update ''duration'' duration params in
     bind_run (lift (float_of env (opt_step a))) (\<lambda>step.
     let params = AList.update ''step'' (PFloat step) params in
     bind_run (perform env (Lifecycle app Apply (pos_protocol a) params)) (\<lambda>_.
     ret params))))))))"

text \<open>
  Lines 253 to 386. The three mode branches are three consecutive \<^verbatim>\<open>if\<close> statements over
  the one dictionary \<^verbatim>\<open>params\<close>.
\<close>

definition device_of :: "arg \<Rightarrow> device" where
  "device_of a = (if opt_gpu a then Cuda else Cpu)"

definition main :: "'f env \<Rightarrow> arg \<Rightarrow> ('f, 'f params) run" where
  "main env a =
     (let params = AList.update ''device'' (PDevice (device_of a)) [] in
      bind_run (perform env (Probe (device_of a))) (\<lambda>_.
      bind_run (if cmd_train a then train_branch env a params else ret params) (\<lambda>params.
      bind_run (if cmd_validate a then validate_branch env a params else ret params) (\<lambda>params.
      (if cmd_apply a then apply_branch env a params else ret params)))))"

subsection \<open>Observing a run\<close>

text \<open>The lifecycle calls of a trace, in order: the method and the keyword arguments.\<close>

fun lifecycle_calls :: "'f event list \<Rightarrow> (mode \<times> 'f params) list" where
  "lifecycle_calls [] = []"
| "lifecycle_calls (Lifecycle app m proto kw # t) = (m, kw) # lifecycle_calls t"
| "lifecycle_calls (ev # t) = lifecycle_calls t"

text \<open>
  The positional argument each mode branch reads (lines 285, 321 and 367) and the
  constructor it calls (lines 286, 322 and 368).
\<close>

fun pos_of :: "mode \<Rightarrow> arg \<Rightarrow> string option" where
  "pos_of Train a = pos_root a"
| "pos_of Validate a = pos_train a"
| "pos_of Apply a = pos_validate a"

fun ctor_of :: "mode \<Rightarrow> ctor" where
  "ctor_of Train = Init"
| "ctor_of Validate = From_train_dir"
| "ctor_of Apply = From_validate_dir"

text \<open>The dictionary \<^verbatim>\<open>params\<close> after line 275.\<close>

definition params0 :: "arg \<Rightarrow> 'f params" where
  "params0 a = AList.update ''device'' (PDevice (device_of a)) []"

text \<open>Every numeric option holds a literal that \<^verbatim>\<open>int\<close>, respectively \<^verbatim>\<open>float\<close>, accepts.\<close>

definition numeric_ok :: "'f env \<Rightarrow> arg \<Rightarrow> bool" where
  "numeric_ok env a \<longleftrightarrow>
     parse_int (opt_from a) \<noteq> None \<and> parse_int (opt_to a) \<noteq> None \<and>
     parse_int (opt_every a) \<noteq> None \<and> parse_int (opt_batch a) \<noteq> None \<and>
     (case opt_parallel a of None \<Rightarrow> True | Some n \<Rightarrow> parse_int n \<noteq> None) \<and>
     py_float env (opt_purity a) \<noteq> None \<and> py_float env (opt_precision a) \<noteq> None \<and>
     py_float env (opt_step a) \<noteq> None"

text \<open>
  The shape of one mode branch: it makes no lifecycle call and raises, or it makes exactly
  one, whose keyword arguments extend the dictionary it started from, keep its device and
  are the dictionary it hands on.
\<close>

definition one_call :: "mode \<Rightarrow> 'f params \<Rightarrow> ('f, 'f params) run \<Rightarrow> bool" where
  "one_call m ps r \<longleftrightarrow>
     (lifecycle_calls (fst r) = [] \<and> isl (snd r)) \<or>
     (\<exists>kw. lifecycle_calls (fst r) = [(m, kw)] \<and> fst ` set ps \<subseteq> fst ` set kw \<and>
        map_of kw ''device'' = map_of ps ''device'' \<and>
        (\<forall>ps'. snd r = Inr ps' \<longrightarrow> ps' = kw))"

text \<open>The keyword arguments of \<^verbatim>\<open>validate\<close> up to line 351, in the order of assignment.\<close>

definition validate_kw ::
  "arg \<Rightarrow> 'f params \<Rightarrow> int \<Rightarrow> int \<Rightarrow> int \<Rightarrow> int \<Rightarrow> int \<Rightarrow> 'f \<Rightarrow> 'f \<Rightarrow> 'f pyval \<Rightarrow> 'f \<Rightarrow> 'f params" where
  "validate_kw a ps st en ev b nj pu pr d s =
     AList.update ''step'' (PFloat s) (AList.update ''duration'' d
       (AList.update ''precision'' (PFloat pr)
       (AList.update ''diarization'' (PBool (opt_diarization a))
       (AList.update ''purity'' (PFloat pu)
       (AList.update ''n_jobs'' (PInt nj)
       (AList.update ''batch_size'' (PInt b)
       (AList.update ''chronological'' (PBool (\<not> opt_evergreen a))
       (AList.update ''every'' (PInt ev)
       (AList.update ''end'' (PInt en)
       (AList.update ''start'' (PInt st)
       (AList.update ''subset''
          (PStr (case opt_subset a of None \<Rightarrow> ''development'' | Some s \<Rightarrow> s)) ps)))))))))))"

text \<open>
  The mode branch an event belongs to: a construction through the constructor that the
  branch calls, or a lifecycle call of the branch's method.
\<close>

fun event_mode :: "'f event \<Rightarrow> mode option" where
  "event_mode (Construct (App cls Init dir tr)) = Some Train"
| "event_mode (Construct (App cls From_train_dir dir tr)) = Some Validate"
| "event_mode (Construct (App cls From_validate_dir dir tr)) = Some Apply"
| "event_mode (Lifecycle app m proto kw) = Some m"
| "event_mode ev = None"

text \<open>The branch of a mode, and the \<^verbatim>\<open>if\<close> statement that guards it.\<close>

fun branch_of :: "mode \<Rightarrow> 'f env \<Rightarrow> arg \<Rightarrow> 'f params \<Rightarrow> ('f, 'f params) run" where
  "branch_of Train = train_branch"
| "branch_of Validate = validate_branch"
| "branch_of Apply = apply_branch"

definition when_mode ::
  "bool \<Rightarrow> ('f params \<Rightarrow> ('f, 'f params) run) \<Rightarrow> 'f params \<Rightarrow> ('f, 'f params) run" where
  "when_mode flag branch ps = (if flag then branch ps else ret ps)"

text \<open>
  What one guarded branch contributes to a run: it raises before its lifecycle call, or
  it is skipped and hands the dictionary on unchanged, or it makes its one lifecycle call
  with keyword arguments that extend the dictionary it received and that it hands on.
\<close>

definition step_shape :: "bool \<Rightarrow> mode \<Rightarrow> 'f params \<Rightarrow> ('f, 'f params) run \<Rightarrow> bool" where
  "step_shape flag m ps r \<longleftrightarrow>
     (lifecycle_calls (fst r) = [] \<and> isl (snd r)) \<or>
     (\<not> flag \<and> lifecycle_calls (fst r) = [] \<and> snd r = Inr ps) \<or>
     (flag \<and> (\<exists>kw. lifecycle_calls (fst r) = [(m, kw)] \<and> fst ` set ps \<subseteq> fst ` set kw \<and>
        (\<forall>ps'. snd r = Inr ps' \<longrightarrow> ps' = kw)))"

text \<open>
  The conversions a branch performs between the construction and the duration check:
  lines 325 to 338 for \<^verbatim>\<open>validate\<close>, line 371 for \<^verbatim>\<open>apply\<close>. The \<^verbatim>\<open>train\<close> branch has no
  duration check.
\<close>

fun before_duration :: "'f env \<Rightarrow> arg \<Rightarrow> mode \<Rightarrow> bool" where
  "before_duration env a Validate \<longleftrightarrow>
     parse_int (opt_from a) \<noteq> None \<and> parse_int (opt_to a) \<noteq> None \<and>
     parse_int (opt_every a) \<noteq> None \<and> parse_int (opt_batch a) \<noteq> None \<and>
     (case opt_parallel a of None \<Rightarrow> True | Some n \<Rightarrow> parse_int n \<noteq> None) \<and>
     py_float env (opt_purity a) \<noteq> None \<and> py_float env (opt_precision a) \<noteq> None"
| "before_duration env a Apply \<longleftrightarrow> parse_int (opt_batch a) \<noteq> None"
| "before_duration env a Train \<longleftrightarrow> False"

text \<open>
  What a branch still does between the duration check and its lifecycle call:
  \<^verbatim>\<open>float(arg['--step'])\<close> (lines 351 and 384) and, for \<^verbatim>\<open>validate\<close> with \<^verbatim>\<open>emb\<close>, the
  metric (lines 353 to 362).
\<close>

definition after_duration :: "'f env \<Rightarrow> arg \<Rightarrow> mode \<Rightarrow> application \<Rightarrow> bool" where
  "after_duration env a m app \<longleftrightarrow>
     py_float env (opt_step a) \<noteq> None \<and>
     (m = Validate \<and> cmd_emb a \<longrightarrow> \<not> isl (metric_of env a app))"


subsection \<open>Example runs\<close>

text \<open>
  A machine with eight CPUs and no accelerator fault, an experiment directory \<^verbatim>\<open>exp\<close>
  with its \<^verbatim>\<open>train\<close> and \<^verbatim>\<open>validate\<close> sub-directories and one checkpoint, a model registry
  that cannot be reached, and Applications without \<^verbatim>\<open>duration\<close> and \<^verbatim>\<open>metric\<close>
  properties. A float is represented by its literal.
\<close>

definition example_env :: "string env" where
  "example_env =
     \<lparr>raises = (\<lambda>ev. None), expanduser = (\<lambda>p. p),
      path_exists = (\<lambda>p. p \<in> set [''exp'', ''exp/train'', ''exp/validate'', ''exp/0050.pt'']),
      realpath = (\<lambda>p. ''/home/'' @ p),
      hub_load = (\<lambda>repo name. Inl (OtherException ''HTTPError'' ''HTTP Error 404'')),
      cpu_count = 8,
      py_float = (\<lambda>s. if s \<in> set [''0.25'', ''0.9'', ''0.8'', ''2.0''] then Some s else None),
      task_attr = (\<lambda>app name. None)\<rparr>"

definition example_train :: arg where
  "example_train =
     no_options\<lparr>cmd_sad := True, cmd_train := True, pos_root := Some ''exp'',
                pos_protocol := ''Debug''\<rparr>"

definition example_validate :: arg where
  "example_validate =
     no_options\<lparr>cmd_emb := True, cmd_validate := True, pos_train := Some ''exp/train'',
                pos_protocol := ''Debug'', opt_parallel := Some ''4'',
                opt_duration := Some ''2.0'', opt_metric := Some ''cosine''\<rparr>"

definition example_apply :: arg where
  "example_apply =
     no_options\<lparr>cmd_sad := True, cmd_apply := True, pos_validate := Some ''exp/validate'',
                pos_protocol := ''Debug'', opt_gpu := True, opt_duration := Some ''2.0''\<rparr>"

text \<open>An argument set that the usage grammar excludes: the three mode commands at once.\<close>

definition example_all_modes :: arg where
  "example_all_modes =
     no_options\<lparr>cmd_sad := True, cmd_train := True, cmd_validate := True, cmd_apply := True,
                pos_root := Some ''exp'', pos_train := Some ''exp/train'',
                pos_validate := Some ''exp/validate'', pos_protocol := ''Debug'',
                opt_duration := Some ''2.0''\<rparr>"

definition sad_train_app :: application where
  "sad_train_app = App SpeechActivityDetection Init ''/home/exp'' True"

definition emb_validate_app :: application where
  "emb_validate_app = App SpeakerEmbedding From_train_dir ''/home/exp/train'' False"

definition sad_validate_app :: application where
  "sad_validate_app = App SpeechActivityDetection From_train_dir ''/home/exp/train'' False"

definition sad_apply_app :: application where
  "sad_apply_app = App SpeechActivityDetection From_validate_dir ''/home/exp/validate'' False"

definition example_train_kw :: "string params" where
  "example_train_kw =
     [(''device'', PDevice Cpu), (''subset'', PStr ''train''), (''warm_start'', PInt 0),
      (''epochs'', PInt 100)]"

definition example_validate_kw :: "string params" where
  "example_validate_kw =
     [(''device'', PDevice Cpu), (''subset'', PStr ''development''), (''start'', PInt 0),
      (''end'', PInt 100), (''every'', PInt 1), (''chronological'', PBool True),
      (''batch_size'', PInt 32), (''n_jobs'', PInt 4), (''purity'', PFloat ''0.9''),
      (''diarization'', PBool False), (''precision'', PFloat ''0.8''),
      (''duration'', PFloat ''2.0''), (''step'', PFloat ''0.25''),
      (''metric'', PStr ''cosine'')]"

definition example_apply_kw :: "string params" where
  "example_apply_kw =
     [(''device'', PDevice Cuda), (''subset'', PStr ''test''), (''batch_size'', PInt 32),
      (''duration'', PFloat ''2.0''), (''step'', PFloat ''0.25'')]"

definition example_train_pretrained :: arg where
  "example_train_pretrained =
     example_train\<lparr>opt_from := ''7'', opt_pretrained := Some ''exp/0050.pt''\<rparr>"

definition example_env_no_gpu :: "string env" where
  "example_env_no_gpu =
     example_env\<lparr>raises :=
       (\<lambda>ev. if ev = Probe Cuda then Some (RuntimeError ''No CUDA GPUs are available'') else None)\<rparr>"

definition example_pretrained_kw :: "string params" where
  "example_pretrained_kw =
     [(''device'', PDevice Cpu), (''subset'', PStr ''train''),
      (''warm_start'', PPath ''exp/0050.pt''), (''epochs'', PInt 100)]"

definition example_validate_all_cpus_kw :: "string params" where
  "example_validate_all_cpus_kw = AList.update ''n_jobs'' (PInt 8) example_validate_kw"

definition example_env_props :: "string env" where
  "example_env_props =
     example_env\<lparr>task_attr :=
       (\<lambda>app name. if name = ''duration'' then Some (PFloat ''3.0'')
                    else if name = ''metric'' then Some (PStr ''angular'') else None)\<rparr>"

definition example_validate_bare :: arg where
  "example_validate_bare = example_validate\<lparr>opt_duration := None, opt_metric := None\<rparr>"

definition example_validate_props_kw :: "string params" where
  "example_validate_props_kw =
     AList.update ''metric'' (PStr ''angular'')
       (AList.update ''duration'' (PFloat ''3.0'') example_validate_kw)"

definition example_apply_bare :: arg where
  "example_apply_bare = example_apply\<lparr>opt_duration := None\<rparr>"

definition example_validate_no_metric :: arg where
  "example_validate_no_metric = example_validate\<lparr>opt_metric := None\<rparr>"

definition example_missing_dir :: arg where
  "example_missing_dir = example_train\<lparr>pos_root := Some ''nowhere''\<rparr>"


definition example_all_modes_validate_kw :: "string params" where
  "example_all_modes_validate_kw =
     [(''device'', PDevice Cpu), (''subset'', PStr ''development''), (''warm_start'', PInt 0),
      (''epochs'', PInt 100), (''start'', PInt 0), (''end'', PInt 100), (''every'', PInt 1),
      (''chronological'', PBool True), (''batch_size'', PInt 32), (''n_jobs'', PInt 8),
      (''purity'', PFloat ''0.9''), (''diarization'', PBool False),
      (''precision'', PFloat ''0.8''), (''duration'', PFloat ''2.0''),
      (''step'', PFloat ''0.25'')]"

definition example_all_modes_apply_kw :: "string params" where
  "example_all_modes_apply_kw =
     AList.update ''subset'' (PStr ''test'') example_all_modes_validate_kw"

text \<open>
  Runs without a duration in which an option that the branch never reads, or reads only
  after the duration check, holds no number.
\<close>

definition example_apply_bad_from :: arg where
  "example_apply_bad_from = example_apply_bare\<lparr>opt_from := ''abc''\<rparr>"

definition example_validate_bad_step :: arg where
  "example_validate_bad_step = example_validate_bare\<lparr>opt_step := ''abc''\<rparr>"

definition example_apply_props_kw :: "string params" where
  "example_apply_props_kw = AList.update ''duration'' (PFloat ''3.0'') example_apply_kw"


section \<open>Properties of runs\<close>

subsection \<open>Sequencing\<close>

lemma fst_bind_run:
  "fst (bind_run m f) = fst m @ (case snd m of Inl e \<Rightarrow> [] | Inr x \<Rightarrow> fst (f x))"
  by (simp add: bind_run_def split: sum.splits)

lemma snd_bind_run:
  "snd (bind_run m f) = (case snd m of Inl e \<Rightarrow> Inl e | Inr x \<Rightarrow> snd (f x))"
  by (simp add: bind_run_def split: sum.splits)

lemma in_bind_run:
  "ev \<in> set (fst (bind_run m f)) \<longleftrightarrow>
     ev \<in> set (fst m) \<or> (\<exists>x. snd m = Inr x \<and> ev \<in> set (fst (f x)))"
  by (auto simp: bind_run_def split: sum.splits)

lemma run_simps [simp]:
  "fst (lift r) = []" "snd (lift r) = r"
  "fst (ret x) = []" "snd (ret x) = Inr x"
  "fst (perform env ev) = [ev]"
  "snd (perform env ev) = (case raises env ev of Some e \<Rightarrow> Inl e | None \<Rightarrow> Inr ())"
  by (simp_all add: lift_def ret_def perform_def)

lemma lifecycle_calls_append [simp]:
  "lifecycle_calls (t @ u) = lifecycle_calls t @ lifecycle_calls u"
  by (induction t rule: lifecycle_calls.induct) simp_all

subsection \<open>The mode branches\<close>

lemma pws_calls [simp]: "lifecycle_calls (fst (pretrained_warm_start env w p)) = []"
  by (auto simp: pretrained_warm_start_def fst_bind_run snd_bind_run sys_exit_def handling_def
      split: option.splits if_splits sum.splits)

lemma pws_events: "Lifecycle app m proto kw \<notin> set (fst (pretrained_warm_start env w p))"
  by (auto simp: pretrained_warm_start_def fst_bind_run snd_bind_run sys_exit_def handling_def
      split: option.splits if_splits sum.splits)

lemma train_branch_one_call: "one_call Train ps (train_branch env a ps)"
  unfolding one_call_def train_branch_def Let_def
  by (auto simp: fst_bind_run snd_bind_run resolve_strict_def AList.dom_update update_conv'
      split: sum.splits option.splits)

lemma validate_branch_one_call: "one_call Validate ps (validate_branch env a ps)"
  unfolding one_call_def validate_branch_def Let_def
  by (auto simp: fst_bind_run snd_bind_run resolve_strict_def AList.dom_update update_conv'
      split: sum.splits option.splits)

lemma apply_branch_one_call: "one_call Apply ps (apply_branch env a ps)"
  unfolding one_call_def apply_branch_def Let_def
  by (auto simp: fst_bind_run snd_bind_run resolve_strict_def AList.dom_update update_conv'
      split: sum.splits option.splits)

lemma one_call_device:
  "one_call m ps r \<Longrightarrow> snd r = Inr ps' \<Longrightarrow> map_of ps' ''device'' = map_of ps ''device''"
  by (auto simp: one_call_def)

lemmas train_device = one_call_device [OF train_branch_one_call]

lemmas validate_device = one_call_device [OF validate_branch_one_call]

lemma train_branch_event:
  assumes "Lifecycle app m proto kw \<in> set (fst (train_branch env a ps))"
  shows "m = Train \<and> proto = pos_protocol a \<and>
     (\<exists>w0 ws ep. py_int (opt_from a) = Inr w0 \<and>
        snd (pretrained_warm_start env w0 (opt_pretrained a)) = Inr ws \<and>
        py_int (opt_to a) = Inr ep \<and>
        kw = AList.update ''epochs'' (PInt ep) (AList.update ''warm_start'' ws
              (AList.update ''subset''
                 (PStr (case opt_subset a of None \<Rightarrow> ''train'' | Some s \<Rightarrow> s)) ps)))"
  using assms unfolding train_branch_def Let_def
  by (auto simp: fst_bind_run snd_bind_run resolve_strict_def pws_events
      split: sum.splits option.splits) (metis)+

lemma apply_branch_event:
  assumes "Lifecycle app m proto kw \<in> set (fst (apply_branch env a ps))"
  shows "m = Apply \<and> proto = pos_protocol a \<and>
     (\<exists>b d s. py_int (opt_batch a) = Inr b \<and> duration_of env a app = Inr d \<and>
        float_of env (opt_step a) = Inr s \<and>
        kw = AList.update ''step'' (PFloat s) (AList.update ''duration'' d
              (AList.update ''batch_size'' (PInt b)
              (AList.update ''subset''
                 (PStr (case opt_subset a of None \<Rightarrow> ''test'' | Some s \<Rightarrow> s)) ps))))"
  using assms unfolding apply_branch_def Let_def
  by (auto simp: fst_bind_run snd_bind_run resolve_strict_def
      split: sum.splits option.splits) (metis)+

lemma validate_branch_event:
  assumes "Lifecycle app m proto kw \<in> set (fst (validate_branch env a ps))"
  shows "m = Validate \<and> proto = pos_protocol a \<and>
     (\<exists>st en ev b nj pu pr d s. py_int (opt_from a) = Inr st \<and> py_int (opt_to a) = Inr en \<and>
        py_int (opt_every a) = Inr ev \<and> py_int (opt_batch a) = Inr b \<and>
        n_jobs_of env a = Inr nj \<and> float_of env (opt_purity a) = Inr pu \<and>
        float_of env (opt_precision a) = Inr pr \<and> duration_of env a app = Inr d \<and>
        float_of env (opt_step a) = Inr s \<and>
        (if cmd_emb a
         then \<exists>mv. metric_of env a app = Inr mv \<and>
                kw = AList.update ''metric'' mv (validate_kw a ps st en ev b nj pu pr d s)
         else kw = validate_kw a ps st en ev b nj pu pr d s))"
  using assms unfolding validate_branch_def Let_def validate_kw_def
  by (auto simp: fst_bind_run snd_bind_run resolve_strict_def
      split: sum.splits option.splits if_splits) (metis)+

subsection \<open>The whole script\<close>

text \<open>
  A lifecycle call of a run belongs to one of the three branches, which started from a
  dictionary holding the device chosen on line 275; when the call's mode is the only mode
  selected, that dictionary holds nothing else.
\<close>

lemma main_event:
  assumes "Lifecycle app m proto kw \<in> set (fst (main env a))"
  shows "\<exists>ps. map_of ps ''device'' = Some (PDevice (device_of a)) \<and>
     (modes a = [m] \<longrightarrow> ps = params0 a) \<and>
     ((cmd_train a \<and> Lifecycle app m proto kw \<in> set (fst (train_branch env a ps))) \<or>
      (cmd_validate a \<and> Lifecycle app m proto kw \<in> set (fst (validate_branch env a ps))) \<or>
      (cmd_apply a \<and> Lifecycle app m proto kw \<in> set (fst (apply_branch env a ps))))"
proof -
  let ?ev = "Lifecycle app m proto kw"
  have d0: "map_of (params0 a :: 'a params) ''device'' = Some (PDevice (device_of a))"
    by (simp add: params0_def)
  define r1 :: "('a, 'a params) run" where
    "r1 = (if cmd_train a then train_branch env a (params0 a) else ret (params0 a))"
  define r2 where
    "r2 = (\<lambda>ps. if cmd_validate a then validate_branch env a ps else ret ps)"
  define r3 where
    "r3 = (\<lambda>ps. if cmd_apply a then apply_branch env a ps else ret ps)"
  have main_eq: "main env a =
      bind_run (perform env (Probe (device_of a))) (\<lambda>_. bind_run r1 (\<lambda>ps. bind_run (r2 ps) r3))"
    by (simp add: main_def r1_def r2_def r3_def params0_def Let_def)
  from assms consider
      (t) "?ev \<in> set (fst r1)"
    | (v) ps1 where "snd r1 = Inr ps1" "?ev \<in> set (fst (r2 ps1))"
    | (p) ps1 ps2 where "snd r1 = Inr ps1" "snd (r2 ps1) = Inr ps2" "?ev \<in> set (fst (r3 ps2))"
    unfolding main_eq by (auto simp: in_bind_run)
  then show ?thesis
  proof cases
    case t
    then have "cmd_train a" "?ev \<in> set (fst (train_branch env a (params0 a)))"
      by (auto simp: r1_def split: if_splits)
    with d0 show ?thesis by blast
  next
    case v
    have d1: "map_of ps1 ''device'' = Some (PDevice (device_of a))"
      using v(1) d0 by (auto simp: r1_def split: if_splits dest: train_device)
    have c: "cmd_validate a" "?ev \<in> set (fst (validate_branch env a ps1))"
      using v(2) by (auto simp: r2_def split: if_splits)
    have "m = Validate" using validate_branch_event [OF c(2)] by simp
    then have "modes a = [m] \<Longrightarrow> ps1 = params0 a"
      using v(1) by (auto simp: modes_def r1_def split: if_splits)
    with d1 c show ?thesis by blast
  next
    case p
    have d1: "map_of ps1 ''device'' = Some (PDevice (device_of a))"
      using p(1) d0 by (auto simp: r1_def split: if_splits dest: train_device)
    have d2: "map_of ps2 ''device'' = Some (PDevice (device_of a))"
      using p(2) d1 by (auto simp: r2_def split: if_splits dest: validate_device)
    have c: "cmd_apply a" "?ev \<in> set (fst (apply_branch env a ps2))"
      using p(3) by (auto simp: r3_def split: if_splits)
    have "m = Apply" using apply_branch_event [OF c(2)] by simp
    then have "modes a = [m] \<Longrightarrow> ps2 = params0 a"
      using p(1,2) by (auto simp: modes_def r1_def r2_def split: if_splits)
    with d2 c show ?thesis by blast
  qed
qed

subsection \<open>The example runs, evaluated\<close>

lemmas eval_defs = main_def train_branch_def validate_branch_def apply_branch_def
  bind_run_def lift_def ret_def perform_def py_Path_def resolve_strict_def Application_def
  device_of_def py_int_def parse_int_def strip_def is_space_def is_digit_def digits_value_def
  pretrained_warm_start_def sys_exit_def handling_def global_name_def module_globals_def
  hub_repo_def n_jobs_of_def duration_of_def metric_of_def float_of_def
  example_env_def no_options_def Let_def

lemma main_example_train:
  "main example_env example_train =
     ([Probe Cpu, Resolve ''exp'', Construct sad_train_app,
       Lifecycle sad_train_app Train ''Debug'' example_train_kw],
      Inr example_train_kw)"
  by (simp add: eval_defs example_train_def sad_train_app_def example_train_kw_def)

lemma main_example_validate:
  "main example_env example_validate =
     ([Probe Cpu, Resolve ''exp/train'', Construct emb_validate_app,
       Lifecycle emb_validate_app Validate ''Debug'' example_validate_kw],
      Inr example_validate_kw)"
  by (simp add: eval_defs example_validate_def emb_validate_app_def example_validate_kw_def)

lemma main_example_apply:
  "main example_env example_apply =
     ([Probe Cuda, Resolve ''exp/validate'', Construct sad_apply_app,
       Lifecycle sad_apply_app Apply ''Debug'' example_apply_kw],
      Inr example_apply_kw)"
  by (simp add: eval_defs example_apply_def sad_apply_app_def example_apply_kw_def)

lemma main_example_train_pretrained:
  "main example_env example_train_pretrained =
     ([Probe Cpu, Resolve ''exp'', Construct sad_train_app,
       Lifecycle sad_train_app Train ''Debug'' example_pretrained_kw],
      Inr example_pretrained_kw)"
  by (simp add: eval_defs example_train_def example_train_pretrained_def sad_train_app_def
      example_pretrained_kw_def)

lemma main_example_validate_all_cpus:
  "main example_env (example_validate\<lparr>opt_parallel := None\<rparr>) =
     ([Probe Cpu, Resolve ''exp/train'', Construct emb_validate_app,
       Lifecycle emb_validate_app Validate ''Debug'' example_validate_all_cpus_kw],
      Inr example_validate_all_cpus_kw)"
  by (simp add: eval_defs example_validate_def emb_validate_app_def example_validate_kw_def
      example_validate_all_cpus_kw_def)

lemma main_example_no_gpu:
  "main example_env_no_gpu example_apply =
     ([Probe Cuda], Inl (RuntimeError ''No CUDA GPUs are available''))"
  by (simp add: eval_defs example_apply_def example_env_no_gpu_def)

lemma main_example_validate_props:
  "main example_env_props example_validate_bare =
     ([Probe Cpu, Resolve ''exp/train'', Construct emb_validate_app,
       Lifecycle emb_validate_app Validate ''Debug'' example_validate_props_kw],
      Inr example_validate_props_kw)"
  by (simp add: eval_defs example_validate_def emb_validate_app_def example_validate_kw_def
      example_validate_props_kw_def example_validate_bare_def example_env_props_def)

lemma main_example_missing_dir_facts:
  "modes example_missing_dir = [Train]" "Train \<in> set (modes example_missing_dir)"
  "pos_of Train example_missing_dir = Some ''nowhere''"
  "\<not> path_exists example_env (expanduser example_env ''nowhere'')"
  "raises example_env (Probe (device_of example_missing_dir)) = None"
  "device_of example_missing_dir = Cpu" "expanduser example_env ''nowhere'' = ''nowhere''"
  by (simp_all add: example_missing_dir_def example_train_def no_options_def modes_def
      example_env_def device_of_def)

lemma main_example_all_modes:
  "main example_env example_all_modes =
     ([Probe Cpu,
       Resolve ''exp'', Construct sad_train_app,
       Lifecycle sad_train_app Train ''Debug'' example_train_kw,
       Resolve ''exp/train'', Construct sad_validate_app,
       Lifecycle sad_validate_app Validate ''Debug'' example_all_modes_validate_kw,
       Resolve ''exp/validate'', Construct sad_apply_app,
       Lifecycle sad_apply_app Apply ''Debug'' example_all_modes_apply_kw],
      Inr example_all_modes_apply_kw)"
  by (simp add: eval_defs example_all_modes_def sad_train_app_def sad_validate_app_def
      sad_apply_app_def example_train_kw_def
      example_all_modes_validate_kw_def example_all_modes_apply_kw_def)

lemma main_example_apply_props:
  "main example_env_props example_apply_bare =
     ([Probe Cuda, Resolve ''exp/validate'', Construct sad_apply_app,
       Lifecycle sad_apply_app Apply ''Debug'' example_apply_props_kw],
      Inr example_apply_props_kw)"
  by (simp add: eval_defs example_apply_def sad_apply_app_def example_apply_kw_def
      example_apply_props_kw_def example_apply_bare_def example_env_props_def)


section \<open>The claims\<close>

subsection \<open>The device reaches every lifecycle call\<close>

text \<open>
  Claim C10. The device selected on line 275 is stored in \<^verbatim>\<open>params\<close> and reaches every
  lifecycle call of the run as the keyword argument \<^verbatim>\<open>device\<close>: the call to \<^verbatim>\<open>train\<close>,
  and the calls to \<^verbatim>\<open>validate\<close> and \<^verbatim>\<open>apply\<close> as well.
\<close>

theorem device_passed_to_every_call:
  assumes "Lifecycle app m proto kw \<in> set (fst (main env a))"
  shows "map_of kw ''device'' = Some (PDevice (if opt_gpu a then Cuda else Cpu))"
proof -
  obtain ps where ps: "map_of ps ''device'' = Some (PDevice (device_of a))"
    and br: "Lifecycle app m proto kw \<in> set (fst (train_branch env a ps)) \<or>
         Lifecycle app m proto kw \<in> set (fst (validate_branch env a ps)) \<or>
         Lifecycle app m proto kw \<in> set (fst (apply_branch env a ps))"
    using main_event [OF assms] by blast
  from br have "map_of kw ''device'' = map_of ps ''device''"
  proof (elim disjE)
    assume "Lifecycle app m proto kw \<in> set (fst (train_branch env a ps))"
    from train_branch_event [OF this] show ?thesis by (auto simp: update_conv')
  next
    assume "Lifecycle app m proto kw \<in> set (fst (validate_branch env a ps))"
    from validate_branch_event [OF this] show ?thesis
      by (auto simp: update_conv' validate_kw_def split: if_splits)
  next
    assume "Lifecycle app m proto kw \<in> set (fst (apply_branch env a ps))"
    from apply_branch_event [OF this] show ?thesis by (auto simp: update_conv')
  qed
  with ps show ?thesis by (simp add: device_of_def)
qed

theorem device_passed_to_every_call_witness:
  "Lifecycle emb_validate_app Validate ''Debug'' example_validate_kw
     \<in> set (fst (main example_env example_validate)) \<and>
   map_of example_validate_kw ''device'' = Some (PDevice Cpu) \<and>
   Lifecycle sad_apply_app Apply ''Debug'' example_apply_kw
     \<in> set (fst (main example_env example_apply)) \<and>
   map_of example_apply_kw ''device'' = Some (PDevice Cuda)"
proof -
  have v: "Lifecycle emb_validate_app Validate ''Debug'' example_validate_kw
      \<in> set (fst (main example_env example_validate))"
    by (simp add: main_example_validate)
  have p: "Lifecycle sad_apply_app Apply ''Debug'' example_apply_kw
      \<in> set (fst (main example_env example_apply))"
    by (simp add: main_example_apply)
  show ?thesis
    using v p device_passed_to_every_call [OF v] device_passed_to_every_call [OF p]
    by (simp add: example_validate_def example_apply_def no_options_def)
qed

subsection \<open>The subset\<close>

text \<open>
  Claim C3. The keyword argument \<^verbatim>\<open>subset\<close> of every lifecycle call is the value of
  \<^verbatim>\<open>--subset\<close> when the option is given, in every mode; when it is absent the argument is
  "train" for \<^verbatim>\<open>train\<close>, "development" for \<^verbatim>\<open>validate\<close> and "test" for \<^verbatim>\<open>apply\<close>.
\<close>

theorem subset_passed_to_every_call:
  assumes "Lifecycle app m proto kw \<in> set (fst (main env a))"
  shows "map_of kw ''subset'' =
     Some (PStr (case opt_subset a of
                   Some s \<Rightarrow> s
                 | None \<Rightarrow> (case m of Train \<Rightarrow> ''train'' | Validate \<Rightarrow> ''development''
                            | Apply \<Rightarrow> ''test'')))"
proof -
  obtain ps where
    br: "Lifecycle app m proto kw \<in> set (fst (train_branch env a ps)) \<or>
         Lifecycle app m proto kw \<in> set (fst (validate_branch env a ps)) \<or>
         Lifecycle app m proto kw \<in> set (fst (apply_branch env a ps))"
    using main_event [OF assms] by blast
  then show ?thesis
  proof (elim disjE)
    assume "Lifecycle app m proto kw \<in> set (fst (train_branch env a ps))"
    from train_branch_event [OF this] show ?thesis
      by (auto simp: update_conv' split: option.splits)
  next
    assume "Lifecycle app m proto kw \<in> set (fst (validate_branch env a ps))"
    from validate_branch_event [OF this] show ?thesis
      by (auto simp: update_conv' validate_kw_def split: if_splits option.splits)
  next
    assume "Lifecycle app m proto kw \<in> set (fst (apply_branch env a ps))"
    from apply_branch_event [OF this] show ?thesis
      by (auto simp: update_conv' split: option.splits)
  qed
qed

theorem subset_passed_to_every_call_witness:
  "Lifecycle sad_train_app Train ''Debug'' example_train_kw
     \<in> set (fst (main example_env example_train)) \<and>
   map_of example_train_kw ''subset'' = Some (PStr ''train'') \<and>
   Lifecycle emb_validate_app Validate ''Debug'' example_validate_kw
     \<in> set (fst (main example_env example_validate)) \<and>
   map_of example_validate_kw ''subset'' = Some (PStr ''development'') \<and>
   Lifecycle sad_apply_app Apply ''Debug'' example_apply_kw
     \<in> set (fst (main example_env example_apply)) \<and>
   map_of example_apply_kw ''subset'' = Some (PStr ''test'')"
proof -
  have t: "Lifecycle sad_train_app Train ''Debug'' example_train_kw
      \<in> set (fst (main example_env example_train))"
    by (simp add: main_example_train)
  have v: "Lifecycle emb_validate_app Validate ''Debug'' example_validate_kw
      \<in> set (fst (main example_env example_validate))"
    by (simp add: main_example_validate)
  have p: "Lifecycle sad_apply_app Apply ''Debug'' example_apply_kw
      \<in> set (fst (main example_env example_apply))"
    by (simp add: main_example_apply)
  show ?thesis
    using t v p subset_passed_to_every_call [OF t] subset_passed_to_every_call [OF v]
      subset_passed_to_every_call [OF p]
    by (simp add: example_train_def example_validate_def example_apply_def no_options_def)
qed

subsection \<open>The number of jobs\<close>

text \<open>
  Claim C9. The keyword argument \<^verbatim>\<open>n_jobs\<close> of a call to \<^verbatim>\<open>validate\<close> is the integer
  value of \<^verbatim>\<open>--parallel\<close> when the option is given, and the number of CPUs reported by
  \<^verbatim>\<open>multiprocessing.cpu_count()\<close> when it is omitted.
\<close>

theorem n_jobs_passed_to_validate:
  assumes "Lifecycle app Validate proto kw \<in> set (fst (main env a))"
  shows "case opt_parallel a of
           None \<Rightarrow> map_of kw ''n_jobs'' = Some (PInt (cpu_count env))
         | Some s \<Rightarrow> (\<exists>n. parse_int s = Some n \<and> map_of kw ''n_jobs'' = Some (PInt n))"
proof -
  obtain ps where
    br: "Lifecycle app Validate proto kw \<in> set (fst (train_branch env a ps)) \<or>
         Lifecycle app Validate proto kw \<in> set (fst (validate_branch env a ps)) \<or>
         Lifecycle app Validate proto kw \<in> set (fst (apply_branch env a ps))"
    using main_event [OF assms] by blast
  then have "Lifecycle app Validate proto kw \<in> set (fst (validate_branch env a ps))"
    using train_branch_event [of app Validate proto kw env a ps]
      apply_branch_event [of app Validate proto kw env a ps] by auto
  from validate_branch_event [OF this] show ?thesis
    by (auto simp: update_conv' validate_kw_def n_jobs_of_def py_int_def
        split: if_splits option.splits)
qed

theorem n_jobs_passed_to_validate_witness:
  "Lifecycle emb_validate_app Validate ''Debug'' example_validate_kw
     \<in> set (fst (main example_env example_validate)) \<and>
   opt_parallel example_validate = Some ''4'' \<and>
   map_of example_validate_kw ''n_jobs'' = Some (PInt 4) \<and>
   Lifecycle emb_validate_app Validate ''Debug'' example_validate_all_cpus_kw
     \<in> set (fst (main example_env (example_validate\<lparr>opt_parallel := None\<rparr>))) \<and>
   map_of example_validate_all_cpus_kw ''n_jobs'' = Some (PInt (cpu_count example_env))"
proof -
  have v: "Lifecycle emb_validate_app Validate ''Debug'' example_validate_kw
      \<in> set (fst (main example_env example_validate))"
    by (simp add: main_example_validate)
  have w: "Lifecycle emb_validate_app Validate ''Debug'' example_validate_all_cpus_kw
      \<in> set (fst (main example_env (example_validate\<lparr>opt_parallel := None\<rparr>)))"
    by (simp add: main_example_validate_all_cpus)
  have four: "parse_int ''4'' = Some 4"
    by (simp add: parse_int_def strip_def is_space_def is_digit_def digits_value_def)
  show ?thesis
    using v w n_jobs_passed_to_validate [OF v] n_jobs_passed_to_validate [OF w] four
    by (simp add: example_validate_def no_options_def)
qed

subsection \<open>The warm start\<close>

text \<open>
  Claim C4. In a call to \<^verbatim>\<open>train\<close>, when \<^verbatim>\<open>--pretrained\<close> names an existing path the
  keyword argument \<^verbatim>\<open>warm_start\<close> is that path, whatever \<^verbatim>\<open>--from\<close> holds; when
  \<^verbatim>\<open>--pretrained\<close> is absent it is the integer value of \<^verbatim>\<open>--from\<close>, whose default
  literal denotes 0.
\<close>

theorem warm_start_passed_to_train:
  assumes "Lifecycle app Train proto kw \<in> set (fst (main env a))"
  shows "(case opt_pretrained a of
            None \<Rightarrow> (\<exists>n. parse_int (opt_from a) = Some n \<and>
                         map_of kw ''warm_start'' = Some (PInt n))
          | Some p \<Rightarrow> (path_exists env p \<longrightarrow> map_of kw ''warm_start'' = Some (PPath p))) \<and>
         parse_int (opt_from no_options) = Some 0"
proof -
  obtain ps where
    br: "Lifecycle app Train proto kw \<in> set (fst (train_branch env a ps)) \<or>
         Lifecycle app Train proto kw \<in> set (fst (validate_branch env a ps)) \<or>
         Lifecycle app Train proto kw \<in> set (fst (apply_branch env a ps))"
    using main_event [OF assms] by blast
  then have "Lifecycle app Train proto kw \<in> set (fst (train_branch env a ps))"
    using validate_branch_event [of app Train proto kw env a ps]
      apply_branch_event [of app Train proto kw env a ps] by auto
  from train_branch_event [OF this] have "case opt_pretrained a of
            None \<Rightarrow> (\<exists>n. parse_int (opt_from a) = Some n \<and>
                         map_of kw ''warm_start'' = Some (PInt n))
          | Some p \<Rightarrow> (path_exists env p \<longrightarrow> map_of kw ''warm_start'' = Some (PPath p))"
    by (auto simp: update_conv' pretrained_warm_start_def py_int_def
        split: if_splits option.splits)
  moreover have "parse_int (opt_from no_options) = Some 0"
    by (simp add: no_options_def parse_int_def strip_def is_space_def is_digit_def
        digits_value_def)
  ultimately show ?thesis by simp
qed

theorem warm_start_passed_to_train_witness:
  "Lifecycle sad_train_app Train ''Debug'' example_pretrained_kw
     \<in> set (fst (main example_env example_train_pretrained)) \<and>
   opt_from example_train_pretrained = ''7'' \<and>
   path_exists example_env ''exp/0050.pt'' \<and>
   map_of example_pretrained_kw ''warm_start'' = Some (PPath ''exp/0050.pt'') \<and>
   Lifecycle sad_train_app Train ''Debug'' example_train_kw
     \<in> set (fst (main example_env example_train)) \<and>
   opt_from example_train = opt_from no_options \<and>
   map_of example_train_kw ''warm_start'' = Some (PInt 0)"
proof -
  have t: "Lifecycle sad_train_app Train ''Debug'' example_pretrained_kw
      \<in> set (fst (main example_env example_train_pretrained))"
    by (simp add: main_example_train_pretrained)
  have u: "Lifecycle sad_train_app Train ''Debug'' example_train_kw
      \<in> set (fst (main example_env example_train))"
    by (simp add: main_example_train)
  have o: "opt_pretrained example_train_pretrained = Some ''exp/0050.pt''"
    "opt_from example_train_pretrained = ''7''"
    "opt_pretrained example_train = None"
    "opt_from example_train = opt_from no_options"
    by (simp_all add: example_train_pretrained_def example_train_def no_options_def)
  have e: "path_exists example_env ''exp/0050.pt''"
    by (simp add: example_env_def)
  show ?thesis
    using t u o e warm_start_passed_to_train [OF t] warm_start_passed_to_train [OF u]
    by auto
qed

subsection \<open>The probe\<close>

text \<open>
  Claim C7. The first thing every run does to the outside world is to allocate the probe
  tensor, on the accelerator exactly when \<^verbatim>\<open>--gpu\<close> is set and on the CPU otherwise; path
  resolution, construction and lifecycle calls come after it, and when the allocation
  raises the run ends there with that exception.
\<close>

theorem probe_comes_first:
  "\<exists>rest. fst (main env a) = Probe (if opt_gpu a then Cuda else Cpu) # rest \<and>
     (\<forall>e. raises env (Probe (if opt_gpu a then Cuda else Cpu)) = Some e \<longrightarrow>
           rest = [] \<and> snd (main env a) = Inl e)"
  by (auto simp: main_def Let_def fst_bind_run snd_bind_run device_of_def)

theorem probe_comes_first_witness:
  "opt_gpu example_apply \<and>
   raises example_env_no_gpu (Probe Cuda) = Some (RuntimeError ''No CUDA GPUs are available'') \<and>
   main example_env_no_gpu example_apply =
     ([Probe Cuda], Inl (RuntimeError ''No CUDA GPUs are available'')) \<and>
   \<not> opt_gpu example_train \<and>
   hd (fst (main example_env example_train)) = Probe Cpu"
proof -
  have g: "opt_gpu example_apply" "\<not> opt_gpu example_train"
    by (simp_all add: example_apply_def example_train_def no_options_def)
  have r: "raises example_env_no_gpu (Probe Cuda) = Some (RuntimeError ''No CUDA GPUs are available'')"
    by (simp add: example_env_no_gpu_def)
  show ?thesis
    using g r probe_comes_first [of example_env_no_gpu example_apply]
      probe_comes_first [of example_env example_train]
    by (auto simp: prod_eq_iff)
qed

subsection \<open>Duration and metric\<close>

lemma modes_single:
  "modes a = [Train] \<longleftrightarrow> cmd_train a \<and> \<not> cmd_validate a \<and> \<not> cmd_apply a"
  "modes a = [Validate] \<longleftrightarrow> \<not> cmd_train a \<and> cmd_validate a \<and> \<not> cmd_apply a"
  "modes a = [Apply] \<longleftrightarrow> \<not> cmd_train a \<and> \<not> cmd_validate a \<and> cmd_apply a"
  by (auto simp: modes_def)

lemma mentions_duration: "sublist ''--duration'' no_duration"
  unfolding sublist_def no_duration_def
  by (rule exI [of _ "''Task has no '' @ [CHR 0x27] @ ''duration'' @ [CHR 0x27] @
        '' defined. '' @ ''Use '' @ [CHR 0x27]"],
      rule exI [of _ "[CHR 0x27] @ '' option to provide one.''"]) simp

lemma mentions_metric: "sublist ''--metric'' no_metric"
  unfolding sublist_def no_metric_def
  by (rule exI [of _ "''Approach has no '' @ [CHR 0x27] @ ''metric'' @ [CHR 0x27] @
        '' defined. '' @ ''Use '' @ [CHR 0x27]"],
      rule exI [of _ "[CHR 0x27] @ '' option to provide one.''"]) simp

lemma duration_of_call:
  assumes "Lifecycle app m proto kw \<in> set (fst (main env a))" and "m \<noteq> Train"
  shows "\<exists>d. duration_of env a app = Inr d \<and> map_of kw ''duration'' = Some d"
proof -
  obtain ps where
    br: "Lifecycle app m proto kw \<in> set (fst (train_branch env a ps)) \<or>
         Lifecycle app m proto kw \<in> set (fst (validate_branch env a ps)) \<or>
         Lifecycle app m proto kw \<in> set (fst (apply_branch env a ps))"
    using main_event [OF assms(1)] by blast
  then show ?thesis
  proof (elim disjE)
    assume "Lifecycle app m proto kw \<in> set (fst (train_branch env a ps))"
    from train_branch_event [OF this] assms(2) show ?thesis by simp
  next
    assume "Lifecycle app m proto kw \<in> set (fst (validate_branch env a ps))"
    from validate_branch_event [OF this] show ?thesis
      by (auto simp: update_conv' validate_kw_def split: if_splits)
  next
    assume "Lifecycle app m proto kw \<in> set (fst (apply_branch env a ps))"
    from apply_branch_event [OF this] show ?thesis
      by (auto simp: update_conv')
  qed
qed

lemma numeric_okD:
  assumes "numeric_ok env a"
  obtains st en ev b nj pu pr s where
    "py_int (opt_from a) = Inr st" "py_int (opt_to a) = Inr en"
    "py_int (opt_every a) = Inr ev" "py_int (opt_batch a) = Inr b"
    "n_jobs_of env a = Inr nj" "float_of env (opt_purity a) = Inr pu"
    "float_of env (opt_precision a) = Inr pr" "float_of env (opt_step a) = Inr s"
  using assms
  by (auto simp: numeric_ok_def py_int_def n_jobs_of_def float_of_def split: option.splits)

lemma before_duration_validateD:
  assumes "before_duration env a Validate"
  obtains st en ev b nj pu pr where
    "py_int (opt_from a) = Inr st" "py_int (opt_to a) = Inr en"
    "py_int (opt_every a) = Inr ev" "py_int (opt_batch a) = Inr b"
    "n_jobs_of env a = Inr nj" "float_of env (opt_purity a) = Inr pu"
    "float_of env (opt_precision a) = Inr pr"
  using assms
  by (auto simp: py_int_def n_jobs_of_def float_of_def split: option.splits)

lemma before_duration_applyD:
  assumes "before_duration env a Apply"
  obtains b where "py_int (opt_batch a) = Inr b"
  using assms by (auto simp: py_int_def split: option.splits)

lemma no_duration_error:
  assumes "modes a = [m]" "m \<noteq> Train" "pos_of m a = Some d"
    "path_exists env (expanduser env d)" "Application a = Inr cls"
    "raises env (Probe (device_of a)) = None"
    "raises env (Construct (App cls (ctor_of m) (realpath env (expanduser env d)) False)) = None"
    "before_duration env a m" "opt_duration a = None"
    "task_attr env (App cls (ctor_of m) (realpath env (expanduser env d)) False) ''duration'' = None"
  shows "main env a =
     ([Probe (device_of a), Resolve (expanduser env d),
       Construct (App cls (ctor_of m) (realpath env (expanduser env d)) False)],
      Inl (ValueError no_duration))"
proof -
  from assms(2) consider "m = Validate" | "m = Apply" by (cases m) auto
  then show ?thesis
  proof cases
    case 1
    with assms(8) have "before_duration env a Validate" by simp
    then obtain st en ev b nj pu pr where
      "py_int (opt_from a) = Inr st" "py_int (opt_to a) = Inr en"
      "py_int (opt_every a) = Inr ev" "py_int (opt_batch a) = Inr b"
      "n_jobs_of env a = Inr nj" "float_of env (opt_purity a) = Inr pu"
      "float_of env (opt_precision a) = Inr pr"
      by (rule before_duration_validateD)
    with 1 assms(1,3-7,9,10) show ?thesis
      by (simp add: modes_single main_def validate_branch_def bind_run_def lift_def ret_def
          perform_def py_Path_def resolve_strict_def duration_of_def Let_def)
  next
    case 2
    with assms(8) have "before_duration env a Apply" by simp
    then obtain b where "py_int (opt_batch a) = Inr b"
      by (rule before_duration_applyD)
    with 2 assms(1,3-7,9,10) show ?thesis
      by (simp add: modes_single main_def apply_branch_def bind_run_def lift_def ret_def
          perform_def py_Path_def resolve_strict_def duration_of_def Let_def)
  qed
qed

lemma duration_tier:
  assumes "(case opt_duration a of
              Some s \<Rightarrow> map_option PFloat (py_float env s)
            | None \<Rightarrow> task_attr env app ''duration'') = Some dv"
  shows "duration_of env a app = Inr dv"
  using assms by (auto simp: duration_of_def float_of_def split: option.splits)

lemma duration_call_made:
  assumes "modes a = [m]" "m \<noteq> Train" "pos_of m a = Some d"
    "path_exists env (expanduser env d)" "Application a = Inr cls"
    "raises env (Probe (device_of a)) = None"
    "raises env (Construct (App cls (ctor_of m) (realpath env (expanduser env d)) False)) = None"
    "before_duration env a m"
    "(case opt_duration a of
        Some s \<Rightarrow> map_option PFloat (py_float env s)
      | None \<Rightarrow> task_attr env (App cls (ctor_of m) (realpath env (expanduser env d)) False)
                  ''duration'') = Some dv"
    "after_duration env a m (App cls (ctor_of m) (realpath env (expanduser env d)) False)"
  shows "\<exists>kw. fst (main env a) =
       [Probe (device_of a), Resolve (expanduser env d),
        Construct (App cls (ctor_of m) (realpath env (expanduser env d)) False),
        Lifecycle (App cls (ctor_of m) (realpath env (expanduser env d)) False) m
          (pos_protocol a) kw] \<and>
     map_of kw ''duration'' = Some dv"
proof -
  let ?app = "App cls (ctor_of m) (realpath env (expanduser env d)) False"
  note dur = duration_tier [OF assms(9)]
  from assms(10) obtain s where s: "float_of env (opt_step a) = Inr s"
    by (auto simp: after_duration_def float_of_def split: option.splits)
  from assms(2) consider "m = Validate" | "m = Apply" by (cases m) auto
  then show ?thesis
  proof cases
    case 1
    with assms(8) have "before_duration env a Validate" by simp
    then obtain st en ev b nj pu pr where n:
      "py_int (opt_from a) = Inr st" "py_int (opt_to a) = Inr en"
      "py_int (opt_every a) = Inr ev" "py_int (opt_batch a) = Inr b"
      "n_jobs_of env a = Inr nj" "float_of env (opt_purity a) = Inr pu"
      "float_of env (opt_precision a) = Inr pr"
      by (rule before_duration_validateD)
    show ?thesis
    proof (cases "cmd_emb a")
      case True
      with 1 assms(10) have
        "\<not> isl (metric_of env a (App cls From_train_dir (realpath env (expanduser env d)) False))"
        by (simp add: after_duration_def)
      then obtain mv where
        "metric_of env a (App cls From_train_dir (realpath env (expanduser env d)) False) = Inr mv"
        by (cases "metric_of env a (App cls From_train_dir (realpath env (expanduser env d)) False)")
          auto
      with True 1 assms(1,3-7) n s dur show ?thesis
        by (simp add: modes_single main_def validate_branch_def fst_bind_run snd_bind_run
            py_Path_def resolve_strict_def Let_def split: sum.splits option.splits)
    next
      case False
      with 1 assms(1,3-7) n s dur show ?thesis
        by (simp add: modes_single main_def validate_branch_def fst_bind_run snd_bind_run
            py_Path_def resolve_strict_def Let_def split: sum.splits option.splits)
    qed
  next
    case 2
    with assms(8) have "before_duration env a Apply" by simp
    then obtain b where "py_int (opt_batch a) = Inr b"
      by (rule before_duration_applyD)
    with 2 assms(1,3-7) s dur show ?thesis
      by (simp add: modes_single main_def apply_branch_def fst_bind_run snd_bind_run
          py_Path_def resolve_strict_def Let_def split: sum.splits option.splits)
  qed
qed

text \<open>
  Claim C2. In \<^verbatim>\<open>validate\<close> and in \<^verbatim>\<open>apply\<close> mode the chunk duration follows three tiers.
  A lifecycle call of either mode carries as \<^verbatim>\<open>duration\<close> the float converted from
  \<^verbatim>\<open>--duration\<close> when the option is given, and otherwise the \<^verbatim>\<open>duration\<close> property of the
  reconstructed Application. In a run of that single mode that reaches the duration check,
  a duration that either tier provides is passed to the lifecycle call, which is made as
  soon as the remaining steps of the branch succeed; when the option is absent and the
  Application has no such property the run stops with a \<^verbatim>\<open>ValueError\<close> right after the
  construction, without any lifecycle call. The text of the error mentions
  \<^verbatim>\<open>--duration\<close>.
\<close>

theorem duration_policy:
  "(Lifecycle app m proto kw \<in> set (fst (main env a)) \<and> m \<noteq> Train \<longrightarrow>
      (case opt_duration a of
         Some s \<Rightarrow> (\<exists>x. py_float env s = Some x \<and> map_of kw ''duration'' = Some (PFloat x))
       | None \<Rightarrow> (\<exists>v. task_attr env app ''duration'' = Some v \<and>
                       map_of kw ''duration'' = Some v))) \<and>
   (modes a = [m] \<and> m \<noteq> Train \<and> pos_of m a = Some d \<and>
    path_exists env (expanduser env d) \<and> Application a = Inr cls \<and>
    raises env (Probe (device_of a)) = None \<and>
    raises env (Construct (App cls (ctor_of m) (realpath env (expanduser env d)) False)) = None \<and>
    before_duration env a m \<longrightarrow>
      ((case opt_duration a of
          Some s \<Rightarrow> map_option PFloat (py_float env s)
        | None \<Rightarrow> task_attr env (App cls (ctor_of m) (realpath env (expanduser env d)) False)
                    ''duration'') = Some dv \<and>
       after_duration env a m (App cls (ctor_of m) (realpath env (expanduser env d)) False) \<longrightarrow>
         (\<exists>kw'. fst (main env a) =
            [Probe (device_of a), Resolve (expanduser env d),
             Construct (App cls (ctor_of m) (realpath env (expanduser env d)) False),
             Lifecycle (App cls (ctor_of m) (realpath env (expanduser env d)) False) m
               (pos_protocol a) kw'] \<and>
            map_of kw' ''duration'' = Some dv)) \<and>
      (opt_duration a = None \<and>
       task_attr env (App cls (ctor_of m) (realpath env (expanduser env d)) False)
         ''duration'' = None \<longrightarrow>
         main env a =
           ([Probe (device_of a), Resolve (expanduser env d),
             Construct (App cls (ctor_of m) (realpath env (expanduser env d)) False)],
            Inl (ValueError no_duration)))) \<and>
   sublist ''--duration'' no_duration"
proof (intro conjI impI)
  assume "Lifecycle app m proto kw \<in> set (fst (main env a)) \<and> m \<noteq> Train"
  then obtain dv where "duration_of env a app = Inr dv" "map_of kw ''duration'' = Some dv"
    using duration_of_call by blast
  then show "case opt_duration a of
         Some s \<Rightarrow> (\<exists>x. py_float env s = Some x \<and> map_of kw ''duration'' = Some (PFloat x))
       | None \<Rightarrow> (\<exists>v. task_attr env app ''duration'' = Some v \<and>
                       map_of kw ''duration'' = Some v)"
    by (auto simp: duration_of_def float_of_def split: option.splits sum.splits)
next
  let ?app = "App cls (ctor_of m) (realpath env (expanduser env d)) False"
  assume r: "modes a = [m] \<and> m \<noteq> Train \<and> pos_of m a = Some d \<and>
    path_exists env (expanduser env d) \<and> Application a = Inr cls \<and>
    raises env (Probe (device_of a)) = None \<and>
    raises env (Construct ?app) = None \<and> before_duration env a m"
  assume "(case opt_duration a of
          Some s \<Rightarrow> map_option PFloat (py_float env s)
        | None \<Rightarrow> task_attr env ?app ''duration'') = Some dv \<and>
       after_duration env a m ?app"
  with r show "\<exists>kw'. fst (main env a) =
            [Probe (device_of a), Resolve (expanduser env d), Construct ?app,
             Lifecycle ?app m (pos_protocol a) kw'] \<and>
            map_of kw' ''duration'' = Some dv"
    by (intro duration_call_made) simp_all
next
  let ?app = "App cls (ctor_of m) (realpath env (expanduser env d)) False"
  assume r: "modes a = [m] \<and> m \<noteq> Train \<and> pos_of m a = Some d \<and>
    path_exists env (expanduser env d) \<and> Application a = Inr cls \<and>
    raises env (Probe (device_of a)) = None \<and>
    raises env (Construct ?app) = None \<and> before_duration env a m"
  assume "opt_duration a = None \<and> task_attr env ?app ''duration'' = None"
  with r show "main env a =
           ([Probe (device_of a), Resolve (expanduser env d), Construct ?app],
            Inl (ValueError no_duration))"
    by (intro no_duration_error) simp_all
next
  show "sublist ''--duration'' no_duration" by (rule mentions_duration)
qed

lemma example_env_facts:
  "path_exists example_env (expanduser example_env ''exp/train'')"
  "path_exists example_env (expanduser example_env ''exp/validate'')"
  "expanduser example_env ''exp/train'' = ''exp/train''"
  "expanduser example_env ''exp/validate'' = ''exp/validate''"
  "raises example_env ev = None"
  "App SpeakerEmbedding (ctor_of Validate)
     (realpath example_env (expanduser example_env ''exp/train'')) False = emb_validate_app"
  "App SpeechActivityDetection (ctor_of Apply)
     (realpath example_env (expanduser example_env ''exp/validate'')) False = sad_apply_app"
  "task_attr example_env app name = None"
  "py_float example_env ''0.9'' = Some ''0.9''" "py_float example_env ''0.8'' = Some ''0.8''"
  "py_float example_env ''2.0'' = Some ''2.0''" "py_float example_env ''0.25'' = Some ''0.25''"
  "py_float example_env ''abc'' = None"
  by (simp_all add: example_env_def emb_validate_app_def sad_apply_app_def)

lemmas example_arg_defs = example_validate_def example_apply_def example_validate_bare_def
  example_apply_bare_def example_apply_bad_from_def example_validate_bad_step_def
  no_options_def modes_def Application_def device_of_def after_duration_def metric_of_def
  parse_int_def strip_def is_space_def is_digit_def digits_value_def

theorem duration_policy_witness:
  "Lifecycle emb_validate_app Validate ''Debug'' example_validate_kw
     \<in> set (fst (main example_env example_validate)) \<and>
   opt_duration example_validate = Some ''2.0'' \<and>
   map_of example_validate_kw ''duration'' = Some (PFloat ''2.0'') \<and>
   Lifecycle sad_apply_app Apply ''Debug'' example_apply_kw
     \<in> set (fst (main example_env example_apply)) \<and>
   opt_duration example_apply = Some ''2.0'' \<and>
   map_of example_apply_kw ''duration'' = Some (PFloat ''2.0'') \<and>
   Lifecycle emb_validate_app Validate ''Debug'' example_validate_props_kw
     \<in> set (fst (main example_env_props example_validate_bare)) \<and>
   Lifecycle sad_apply_app Apply ''Debug'' example_apply_props_kw
     \<in> set (fst (main example_env_props example_apply_bare)) \<and>
   opt_duration example_validate_bare = None \<and> opt_duration example_apply_bare = None \<and>
   task_attr example_env_props emb_validate_app ''duration'' = Some (PFloat ''3.0'') \<and>
   task_attr example_env_props sad_apply_app ''duration'' = Some (PFloat ''3.0'') \<and>
   map_of example_validate_props_kw ''duration'' = Some (PFloat ''3.0'') \<and>
   map_of example_apply_props_kw ''duration'' = Some (PFloat ''3.0'') \<and>
   (\<exists>kw. fst (main example_env example_apply) =
      [Probe Cuda, Resolve ''exp/validate'', Construct sad_apply_app,
       Lifecycle sad_apply_app Apply ''Debug'' kw] \<and>
      map_of kw ''duration'' = Some (PFloat ''2.0'')) \<and>
   (\<exists>kw. fst (main example_env example_validate) =
      [Probe Cpu, Resolve ''exp/train'', Construct emb_validate_app,
       Lifecycle emb_validate_app Validate ''Debug'' kw] \<and>
      map_of kw ''duration'' = Some (PFloat ''2.0'')) \<and>
   parse_int (opt_from example_apply_bad_from) = None \<and>
   main example_env example_apply_bad_from =
     ([Probe Cuda, Resolve ''exp/validate'', Construct sad_apply_app],
      Inl (ValueError no_duration)) \<and>
   py_float example_env (opt_step example_validate_bad_step) = None \<and>
   main example_env example_validate_bad_step =
     ([Probe Cpu, Resolve ''exp/train'', Construct emb_validate_app],
      Inl (ValueError no_duration))"
proof -
  have v: "Lifecycle emb_validate_app Validate ''Debug'' example_validate_kw
      \<in> set (fst (main example_env example_validate))"
    by (simp add: main_example_validate)
  have p: "Lifecycle sad_apply_app Apply ''Debug'' example_apply_kw
      \<in> set (fst (main example_env example_apply))"
    by (simp add: main_example_apply)
  have w: "Lifecycle emb_validate_app Validate ''Debug'' example_validate_props_kw
      \<in> set (fst (main example_env_props example_validate_bare))"
    by (simp add: main_example_validate_props)
  have q: "Lifecycle sad_apply_app Apply ''Debug'' example_apply_props_kw
      \<in> set (fst (main example_env_props example_apply_bare))"
    by (simp add: main_example_apply_props)
  have o: "opt_duration example_validate = Some ''2.0''"
    "opt_duration example_apply = Some ''2.0''"
    "opt_duration example_validate_bare = None" "opt_duration example_apply_bare = None"
    "opt_duration example_apply_bad_from = None"
    "opt_duration example_validate_bad_step = None"
    "task_attr example_env_props emb_validate_app ''duration'' = Some (PFloat ''3.0'')"
    "task_attr example_env_props sad_apply_app ''duration'' = Some (PFloat ''3.0'')"
    "parse_int (opt_from example_apply_bad_from) = None"
    "py_float example_env (opt_step example_validate_bad_step) = None"
    by (simp_all add: example_arg_defs example_env_props_def example_env_def)
  have cp: "modes example_apply = [Apply]"
    "pos_of Apply example_apply = Some ''exp/validate''"
    "Application example_apply = Inr SpeechActivityDetection"
    "device_of example_apply = Cuda" "before_duration example_env example_apply Apply"
    "after_duration example_env example_apply Apply sad_apply_app"
    "pos_protocol example_apply = ''Debug''"
    by (simp_all add: example_arg_defs example_env_def)
  have cv: "modes example_validate = [Validate]"
    "pos_of Validate example_validate = Some ''exp/train''"
    "Application example_validate = Inr SpeakerEmbedding"
    "device_of example_validate = Cpu" "before_duration example_env example_validate Validate"
    "after_duration example_env example_validate Validate emb_validate_app"
    "pos_protocol example_validate = ''Debug''"
    by (simp_all add: example_arg_defs example_env_def)
  have ep: "modes example_apply_bad_from = [Apply]"
    "pos_of Apply example_apply_bad_from = Some ''exp/validate''"
    "Application example_apply_bad_from = Inr SpeechActivityDetection"
    "device_of example_apply_bad_from = Cuda"
    "before_duration example_env example_apply_bad_from Apply"
    by (simp_all add: example_arg_defs example_env_def)
  have ev: "modes example_validate_bad_step = [Validate]"
    "pos_of Validate example_validate_bad_step = Some ''exp/train''"
    "Application example_validate_bad_step = Inr SpeakerEmbedding"
    "device_of example_validate_bad_step = Cpu"
    "before_duration example_env example_validate_bad_step Validate"
    by (simp_all add: example_arg_defs example_env_def)
  show ?thesis
    using v p w q o cp cv ep ev example_env_facts
      duration_policy [where app = emb_validate_app and m = Validate and proto = "''Debug''"
        and kw = example_validate_kw and env = example_env and a = example_validate
        and d = "''exp/train''" and cls = SpeakerEmbedding and dv = "PFloat ''2.0''"]
      duration_policy [where app = sad_apply_app and m = Apply and proto = "''Debug''"
        and kw = example_apply_kw and env = example_env and a = example_apply
        and d = "''exp/validate''" and cls = SpeechActivityDetection
        and dv = "PFloat ''2.0''"]
      duration_policy [where app = emb_validate_app and m = Validate and proto = "''Debug''"
        and kw = example_validate_props_kw and env = example_env_props
        and a = example_validate_bare]
      duration_policy [where app = sad_apply_app and m = Apply and proto = "''Debug''"
        and kw = example_apply_props_kw and env = example_env_props
        and a = example_apply_bare]
      duration_policy [where m = Apply and env = example_env and a = example_apply_bad_from
        and d = "''exp/validate''" and cls = SpeechActivityDetection]
      duration_policy [where m = Validate and env = example_env
        and a = example_validate_bad_step and d = "''exp/train''" and cls = SpeakerEmbedding]
    by simp
qed

lemma metric_of_call:
  assumes "Lifecycle app Validate proto kw \<in> set (fst (main env a))" and "cmd_emb a"
  shows "\<exists>v. metric_of env a app = Inr v \<and> map_of kw ''metric'' = Some v"
proof -
  obtain ps where
    br: "Lifecycle app Validate proto kw \<in> set (fst (train_branch env a ps)) \<or>
         Lifecycle app Validate proto kw \<in> set (fst (validate_branch env a ps)) \<or>
         Lifecycle app Validate proto kw \<in> set (fst (apply_branch env a ps))"
    using main_event [OF assms(1)] by blast
  then have "Lifecycle app Validate proto kw \<in> set (fst (validate_branch env a ps))"
    using train_branch_event [of app Validate proto kw env a ps]
      apply_branch_event [of app Validate proto kw env a ps] by auto
  from validate_branch_event [OF this] assms(2) show ?thesis
    by (auto simp: update_conv')
qed

lemma metric_key_iff:
  assumes "Lifecycle app m proto kw \<in> set (fst (main env a))" and "modes a = [m]"
  shows "''metric'' \<in> fst ` set kw \<longleftrightarrow> cmd_emb a \<and> m = Validate"
proof -
  from main_event [OF assms(1)] assms(2) have
    br: "Lifecycle app m proto kw \<in> set (fst (train_branch env a (params0 a))) \<or>
         Lifecycle app m proto kw \<in> set (fst (validate_branch env a (params0 a))) \<or>
         Lifecycle app m proto kw \<in> set (fst (apply_branch env a (params0 a)))"
    by auto
  then show ?thesis
  proof (elim disjE)
    assume "Lifecycle app m proto kw \<in> set (fst (train_branch env a (params0 a)))"
    from train_branch_event [OF this] show ?thesis
      by (auto simp: AList.dom_update params0_def)
  next
    assume "Lifecycle app m proto kw \<in> set (fst (validate_branch env a (params0 a)))"
    from validate_branch_event [OF this] show ?thesis
      by (auto simp: AList.dom_update params0_def validate_kw_def split: if_splits)
  next
    assume "Lifecycle app m proto kw \<in> set (fst (apply_branch env a (params0 a)))"
    from apply_branch_event [OF this] show ?thesis
      by (auto simp: AList.dom_update params0_def)
  qed
qed

lemma no_metric_error:
  assumes "modes a = [Validate]" "cmd_emb a" "pos_train a = Some d"
    "path_exists env (expanduser env d)" "Application a = Inr cls"
    "raises env (Probe (device_of a)) = None"
    "raises env (Construct (App cls From_train_dir (realpath env (expanduser env d)) False)) = None"
    "numeric_ok env a"
    "duration_of env a (App cls From_train_dir (realpath env (expanduser env d)) False) = Inr dv"
    "opt_metric a = None"
    "task_attr env (App cls From_train_dir (realpath env (expanduser env d)) False) ''metric'' = None"
  shows "main env a =
     ([Probe (device_of a), Resolve (expanduser env d),
       Construct (App cls From_train_dir (realpath env (expanduser env d)) False)],
      Inl (ValueError no_metric))"
proof -
  from assms(8) obtain st en ev b nj pu pr s where n:
    "py_int (opt_from a) = Inr st" "py_int (opt_to a) = Inr en"
    "py_int (opt_every a) = Inr ev" "py_int (opt_batch a) = Inr b"
    "n_jobs_of env a = Inr nj" "float_of env (opt_purity a) = Inr pu"
    "float_of env (opt_precision a) = Inr pr" "float_of env (opt_step a) = Inr s"
    by (rule numeric_okD)
  with assms show ?thesis
    by (simp add: modes_single main_def validate_branch_def bind_run_def lift_def ret_def
        perform_def py_Path_def resolve_strict_def metric_of_def Let_def)
qed

text \<open>
  Claim C5. In a run of a single mode, the keyword arguments of the lifecycle call contain
  the key \<^verbatim>\<open>metric\<close> exactly when the \<^verbatim>\<open>emb\<close> command is set and the mode is
  \<^verbatim>\<open>validate\<close>. Its value is \<^verbatim>\<open>--metric\<close> when the option is given, and otherwise the
  \<^verbatim>\<open>metric\<close> property of the Application. When neither is available, a run whose earlier
  steps succeed stops with a \<^verbatim>\<open>ValueError\<close> without any lifecycle call, and the text of
  the error mentions \<^verbatim>\<open>--metric\<close>.
\<close>

theorem metric_policy:
  "(Lifecycle app m proto kw \<in> set (fst (main env a)) \<and> modes a = [m] \<longrightarrow>
      (''metric'' \<in> fst ` set kw \<longleftrightarrow> cmd_emb a \<and> m = Validate)) \<and>
   (Lifecycle app m proto kw \<in> set (fst (main env a)) \<and> m = Validate \<and> cmd_emb a \<longrightarrow>
      (case opt_metric a of
         Some s \<Rightarrow> map_of kw ''metric'' = Some (PStr s)
       | None \<Rightarrow> (\<exists>v. task_attr env app ''metric'' = Some v \<and>
                       map_of kw ''metric'' = Some v))) \<and>
   (modes a = [Validate] \<and> cmd_emb a \<and> pos_train a = Some d \<and>
    path_exists env (expanduser env d) \<and> Application a = Inr cls \<and>
    raises env (Probe (device_of a)) = None \<and>
    raises env (Construct (App cls From_train_dir (realpath env (expanduser env d)) False)) = None \<and>
    numeric_ok env a \<and>
    duration_of env a (App cls From_train_dir (realpath env (expanduser env d)) False) = Inr dv \<and>
    opt_metric a = None \<and>
    task_attr env (App cls From_train_dir (realpath env (expanduser env d)) False) ''metric'' = None
    \<longrightarrow>
      main env a =
        ([Probe (device_of a), Resolve (expanduser env d),
          Construct (App cls From_train_dir (realpath env (expanduser env d)) False)],
         Inl (ValueError no_metric))) \<and>
   sublist ''--metric'' no_metric"
proof (intro conjI impI)
  assume "Lifecycle app m proto kw \<in> set (fst (main env a)) \<and> modes a = [m]"
  then show "''metric'' \<in> fst ` set kw \<longleftrightarrow> cmd_emb a \<and> m = Validate"
    using metric_key_iff by blast
next
  assume "Lifecycle app m proto kw \<in> set (fst (main env a)) \<and> m = Validate \<and> cmd_emb a"
  then obtain v where "metric_of env a app = Inr v" "map_of kw ''metric'' = Some v"
    using metric_of_call by blast
  then show "case opt_metric a of
         Some s \<Rightarrow> map_of kw ''metric'' = Some (PStr s)
       | None \<Rightarrow> (\<exists>v. task_attr env app ''metric'' = Some v \<and>
                       map_of kw ''metric'' = Some v)"
    by (auto simp: metric_of_def split: option.splits)
next
  assume "modes a = [Validate] \<and> cmd_emb a \<and> pos_train a = Some d \<and>
    path_exists env (expanduser env d) \<and> Application a = Inr cls \<and>
    raises env (Probe (device_of a)) = None \<and>
    raises env (Construct (App cls From_train_dir (realpath env (expanduser env d)) False)) = None \<and>
    numeric_ok env a \<and>
    duration_of env a (App cls From_train_dir (realpath env (expanduser env d)) False) = Inr dv \<and>
    opt_metric a = None \<and>
    task_attr env (App cls From_train_dir (realpath env (expanduser env d)) False) ''metric'' = None"
  then show "main env a =
        ([Probe (device_of a), Resolve (expanduser env d),
          Construct (App cls From_train_dir (realpath env (expanduser env d)) False)],
         Inl (ValueError no_metric))"
    by (intro no_metric_error [where dv = dv]) simp_all
next
  show "sublist ''--metric'' no_metric" by (rule mentions_metric)
qed

theorem metric_policy_witness:
  "Lifecycle emb_validate_app Validate ''Debug'' example_validate_kw
     \<in> set (fst (main example_env example_validate)) \<and>
   modes example_validate = [Validate] \<and> cmd_emb example_validate \<and>
   ''metric'' \<in> fst ` set example_validate_kw \<and>
   map_of example_validate_kw ''metric'' = Some (PStr ''cosine'') \<and>
   Lifecycle sad_train_app Train ''Debug'' example_train_kw
     \<in> set (fst (main example_env example_train)) \<and>
   modes example_train = [Train] \<and>
   ''metric'' \<notin> fst ` set example_train_kw \<and>
   Lifecycle emb_validate_app Validate ''Debug'' example_validate_props_kw
     \<in> set (fst (main example_env_props example_validate_bare)) \<and>
   opt_metric example_validate_bare = None \<and>
   task_attr example_env_props emb_validate_app ''metric'' = Some (PStr ''angular'') \<and>
   map_of example_validate_props_kw ''metric'' = Some (PStr ''angular'') \<and>
   modes example_validate_no_metric = [Validate] \<and>
   task_attr example_env emb_validate_app ''metric'' = None \<and>
   main example_env example_validate_no_metric =
     ([Probe Cpu, Resolve ''exp/train'', Construct emb_validate_app],
      Inl (ValueError no_metric))"
proof -
  have v: "Lifecycle emb_validate_app Validate ''Debug'' example_validate_kw
      \<in> set (fst (main example_env example_validate))"
    by (simp add: main_example_validate)
  have t: "Lifecycle sad_train_app Train ''Debug'' example_train_kw
      \<in> set (fst (main example_env example_train))"
    by (simp add: main_example_train)
  have w: "Lifecycle emb_validate_app Validate ''Debug'' example_validate_props_kw
      \<in> set (fst (main example_env_props example_validate_bare))"
    by (simp add: main_example_validate_props)
  have o: "modes example_validate = [Validate]" "cmd_emb example_validate"
    "opt_metric example_validate = Some ''cosine''"
    "modes example_train = [Train]" "\<not> cmd_emb example_train"
    "cmd_emb example_validate_bare" "opt_metric example_validate_bare = None"
    "task_attr example_env_props emb_validate_app ''metric'' = Some (PStr ''angular'')"
    by (simp_all add: example_validate_def example_validate_bare_def example_train_def
        no_options_def modes_def example_env_props_def)
  have hv: "modes example_validate_no_metric = [Validate]"
    "cmd_emb example_validate_no_metric"
    "pos_train example_validate_no_metric = Some ''exp/train''"
    "path_exists example_env (expanduser example_env ''exp/train'')"
    "Application example_validate_no_metric = Inr SpeakerEmbedding"
    "raises example_env (Probe (device_of example_validate_no_metric)) = None"
    "App SpeakerEmbedding From_train_dir
       (realpath example_env (expanduser example_env ''exp/train'')) False = emb_validate_app"
    "raises example_env (Construct emb_validate_app) = None"
    "numeric_ok example_env example_validate_no_metric"
    "duration_of example_env example_validate_no_metric emb_validate_app = Inr (PFloat ''2.0'')"
    "opt_metric example_validate_no_metric = None"
    "task_attr example_env emb_validate_app ''metric'' = None"
    "device_of example_validate_no_metric = Cpu"
    "expanduser example_env ''exp/train'' = ''exp/train''"
    by (simp_all add: example_validate_no_metric_def example_validate_def no_options_def
        modes_def example_env_def Application_def device_of_def emb_validate_app_def
        numeric_ok_def duration_of_def float_of_def
        parse_int_def strip_def is_space_def is_digit_def digits_value_def)
  show ?thesis
    using v t w o hv
      metric_policy [where app = emb_validate_app and m = Validate and proto = "''Debug''"
        and kw = example_validate_kw and env = example_env and a = example_validate]
      metric_policy [where app = sad_train_app and m = Train and proto = "''Debug''"
        and kw = example_train_kw and env = example_env and a = example_train]
      metric_policy [where app = emb_validate_app and m = Validate and proto = "''Debug''"
        and kw = example_validate_props_kw and env = example_env_props
        and a = example_validate_bare]
      metric_policy [where env = example_env and a = example_validate_no_metric
        and d = "''exp/train''" and cls = SpeakerEmbedding and dv = "PFloat ''2.0''"]
    by simp
qed

subsection \<open>Missing directories\<close>

lemma main_steps:
  "main env a =
     bind_run (perform env (Probe (device_of a))) (\<lambda>_.
     bind_run (when_mode (cmd_train a) (train_branch env a) (params0 a)) (\<lambda>ps.
     bind_run (when_mode (cmd_validate a) (validate_branch env a) ps) (\<lambda>ps.
     when_mode (cmd_apply a) (apply_branch env a) ps)))"
  by (simp add: main_def when_mode_def params0_def Let_def)

lemma pws_event_mode:
  "ev \<in> set (fst (pretrained_warm_start env w p)) \<Longrightarrow> event_mode ev = None"
  by (auto simp: pretrained_warm_start_def fst_bind_run snd_bind_run sys_exit_def handling_def
      split: option.splits if_splits sum.splits)

lemma train_branch_event_mode:
  "ev \<in> set (fst (train_branch env a ps)) \<Longrightarrow> event_mode ev = None \<or> event_mode ev = Some Train"
  unfolding train_branch_def Let_def
  by (auto simp: in_bind_run resolve_strict_def dest: pws_event_mode split: if_splits)

lemma validate_branch_event_mode:
  "ev \<in> set (fst (validate_branch env a ps)) \<Longrightarrow>
     event_mode ev = None \<or> event_mode ev = Some Validate"
  unfolding validate_branch_def Let_def
  by (auto simp: in_bind_run resolve_strict_def split: if_splits)

lemma apply_branch_event_mode:
  "ev \<in> set (fst (apply_branch env a ps)) \<Longrightarrow> event_mode ev = None \<or> event_mode ev = Some Apply"
  unfolding apply_branch_def Let_def
  by (auto simp: in_bind_run resolve_strict_def split: if_splits)

lemma branch_event_mode:
  "ev \<in> set (fst (branch_of m env a ps)) \<Longrightarrow> event_mode ev = None \<or> event_mode ev = Some m"
  by (cases m) (auto dest: train_branch_event_mode validate_branch_event_mode
      apply_branch_event_mode)

lemma branch_missing_dir:
  assumes "pos_of m a = Some d" "\<not> path_exists env (expanduser env d)"
  shows "branch_of m env a ps =
     ([Resolve (expanduser env d)],
      Inl (FileNotFoundError (''[Errno 2] No such file or directory: '' @ expanduser env d)))"
  using assms
  by (cases m)
    (simp_all add: train_branch_def validate_branch_def apply_branch_def bind_run_def lift_def
      py_Path_def resolve_strict_def)

lemma main_event_cases:
  assumes "ev \<in> set (fst (main env a))"
  shows "ev = Probe (device_of a) \<or>
     (cmd_train a \<and> (\<exists>ps. ev \<in> set (fst (train_branch env a ps)))) \<or>
     (cmd_validate a \<and> (\<exists>ps. ev \<in> set (fst (validate_branch env a ps)))) \<or>
     (cmd_apply a \<and> (\<exists>ps. ev \<in> set (fst (apply_branch env a ps))))"
  using assms unfolding main_steps
  by (auto simp: in_bind_run when_mode_def split: if_splits)

lemma main_event_branch:
  assumes "ev \<in> set (fst (main env a))" and "ev \<noteq> Probe (device_of a)"
  obtains m ps where "m \<in> set (modes a)" "ev \<in> set (fst (branch_of m env a ps))"
proof -
  from main_event_cases [OF assms(1)] assms(2) consider
      (t) ps where "cmd_train a" "ev \<in> set (fst (train_branch env a ps))"
    | (v) ps where "cmd_validate a" "ev \<in> set (fst (validate_branch env a ps))"
    | (p) ps where "cmd_apply a" "ev \<in> set (fst (apply_branch env a ps))"
    by blast
  then show thesis
  proof cases
    case t
    then have "Train \<in> set (modes a)" "ev \<in> set (fst (branch_of Train env a ps))"
      by (simp_all add: modes_def)
    then show thesis by (rule that)
  next
    case v
    then have "Validate \<in> set (modes a)" "ev \<in> set (fst (branch_of Validate env a ps))"
      by (simp_all add: modes_def)
    then show thesis by (rule that)
  next
    case p
    then have "Apply \<in> set (modes a)" "ev \<in> set (fst (branch_of Apply env a ps))"
      by (simp_all add: modes_def)
    then show thesis by (rule that)
  qed
qed

lemma main_returns:
  assumes "snd (main env a) = Inr ps'"
  obtains ps1 ps2 where
    "snd (when_mode (cmd_train a) (train_branch env a) (params0 a)) = Inr ps1"
    "snd (when_mode (cmd_validate a) (validate_branch env a) ps1) = Inr ps2"
    "snd (when_mode (cmd_apply a) (apply_branch env a) ps2) = Inr ps'"
proof -
  let ?r1 = "when_mode (cmd_train a) (train_branch env a) (params0 a)"
  from assms obtain ps1 where 1: "snd ?r1 = Inr ps1"
    unfolding main_steps by (auto simp: snd_bind_run split: sum.splits option.splits)
  let ?r2 = "when_mode (cmd_validate a) (validate_branch env a) ps1"
  from assms 1 obtain ps2 where 2: "snd ?r2 = Inr ps2"
    unfolding main_steps by (auto simp: snd_bind_run split: sum.splits option.splits)
  from assms 1 2 have "snd (when_mode (cmd_apply a) (apply_branch env a) ps2) = Inr ps'"
    unfolding main_steps by (auto simp: snd_bind_run split: sum.splits option.splits)
  with 1 2 that show thesis by blast
qed

lemma main_returns_branch:
  assumes "snd (main env a) = Inr ps'" "m \<in> set (modes a)"
  shows "\<exists>ps ps''. snd (branch_of m env a ps) = Inr ps''"
proof -
  from assms(1) obtain ps1 ps2 where r:
    "snd (when_mode (cmd_train a) (train_branch env a) (params0 a)) = Inr ps1"
    "snd (when_mode (cmd_validate a) (validate_branch env a) ps1) = Inr ps2"
    "snd (when_mode (cmd_apply a) (apply_branch env a) ps2) = Inr ps'"
    by (rule main_returns)
  show ?thesis
  proof (cases m)
    case Train
    with assms(2) have "cmd_train a" by (simp add: modes_def split: if_splits)
    with r(1) have "snd (branch_of Train env a (params0 a)) = Inr ps1"
      by (simp add: when_mode_def)
    with Train show ?thesis by blast
  next
    case Validate
    with assms(2) have "cmd_validate a" by (simp add: modes_def split: if_splits)
    with r(2) have "snd (branch_of Validate env a ps1) = Inr ps2"
      by (simp add: when_mode_def)
    with Validate show ?thesis by blast
  next
    case Apply
    with assms(2) have "cmd_apply a" by (simp add: modes_def split: if_splits)
    with r(3) have "snd (branch_of Apply env a ps2) = Inr ps'"
      by (simp add: when_mode_def)
    with Apply show ?thesis by blast
  qed
qed

lemma pws_no_construct:
  "Construct app \<notin> set (fst (pretrained_warm_start env w p))"
  by (auto simp: pretrained_warm_start_def fst_bind_run snd_bind_run sys_exit_def handling_def
      split: option.splits if_splits sum.splits)

lemma branch_construct:
  assumes "Construct (App cls c dir tr) \<in> set (fst (branch_of m env a ps))"
  shows "c = ctor_of m \<and> (\<exists>d. pos_of m a = Some d \<and> path_exists env (expanduser env d) \<and>
           dir = realpath env (expanduser env d))"
  using assms
  by (cases m)
    (auto simp: train_branch_def validate_branch_def apply_branch_def in_bind_run Let_def
      resolve_strict_def py_Path_def pws_no_construct split: if_splits option.splits)

lemma missing_dir_single:
  assumes "modes a = [m]" "pos_of m a = Some d" "\<not> path_exists env (expanduser env d)"
    "raises env (Probe (device_of a)) = None"
  shows "main env a =
     ([Probe (device_of a), Resolve (expanduser env d)],
      Inl (FileNotFoundError (''[Errno 2] No such file or directory: '' @ expanduser env d)))"
proof -
  note b = branch_missing_dir [OF assms(2,3)]
  show ?thesis
  proof (cases m)
    case Train
    with assms(1,4) b [of "params0 a"] show ?thesis
      by (simp add: main_steps when_mode_def modes_single bind_run_def perform_def ret_def)
  next
    case Validate
    with assms(1,4) b [of "params0 a"] show ?thesis
      by (simp add: main_steps when_mode_def modes_single bind_run_def perform_def ret_def)
  next
    case Apply
    with assms(1,4) b [of "params0 a"] show ?thesis
      by (simp add: main_steps when_mode_def modes_single bind_run_def perform_def ret_def)
  qed
qed

lemma missing_dir_raises:
  assumes "m \<in> set (modes a)" "pos_of m a = Some d" "\<not> path_exists env (expanduser env d)"
  shows "isl (snd (main env a))"
proof (cases "snd (main env a)")
  case (Inl e)
  then show ?thesis by simp
next
  case (Inr ps')
  from main_returns_branch [OF this assms(1)] obtain ps ps''
    where "snd (branch_of m env a ps) = Inr ps''" by blast
  with branch_missing_dir [OF assms(2,3), of ps] show ?thesis by simp
qed

lemma missing_dir_no_event:
  assumes "m \<in> set (modes a)" "pos_of m a = Some d" "\<not> path_exists env (expanduser env d)"
    and "ev \<in> set (fst (main env a))"
  shows "event_mode ev \<noteq> Some m"
proof
  assume em: "event_mode ev = Some m"
  then have "ev \<noteq> Probe (device_of a)" by auto
  with assms(4) obtain m' ps where
    m': "m' \<in> set (modes a)" "ev \<in> set (fst (branch_of m' env a ps))"
    by (rule main_event_branch)
  from branch_event_mode [OF m'(2)] em have "m' = m" by simp
  with m'(2) branch_missing_dir [OF assms(2,3), of ps] have "ev = Resolve (expanduser env d)"
    by simp
  with em show False by simp
qed

lemma construct_resolved:
  assumes "Construct (App cls c dir tr) \<in> set (fst (main env a))"
  shows "\<exists>m d. c = ctor_of m \<and> m \<in> set (modes a) \<and> pos_of m a = Some d \<and>
           path_exists env (expanduser env d) \<and> dir = realpath env (expanduser env d)"
proof -
  from assms obtain m ps where
    m: "m \<in> set (modes a)" "Construct (App cls c dir tr) \<in> set (fst (branch_of m env a ps))"
    by (rule main_event_branch) simp
  from branch_construct [OF m(2)] m(1) show ?thesis by blast
qed

text \<open>
  Claim C8. Each mode branch resolves its positional directory (\<^verbatim>\<open><root>\<close> for
  \<^verbatim>\<open>train\<close>, \<^verbatim>\<open><train>\<close> for \<^verbatim>\<open>validate\<close>, \<^verbatim>\<open><validate>\<close> for \<^verbatim>\<open>apply\<close>) with a strict
  existence check before it constructs the Application. When the directory of a selected
  mode does not exist, the run ends with an exception and its trace holds neither a
  construction nor a lifecycle call of that mode; when that mode is the only one selected
  the run consists of the probe and the failed resolution, and ends with
  \<^verbatim>\<open>FileNotFoundError\<close>. Conversely, every Application that is constructed is bound to
  the resolved form of a directory that exists.
\<close>

theorem missing_directory_is_fatal:
  "(m \<in> set (modes a) \<and> pos_of m a = Some d \<and> \<not> path_exists env (expanduser env d) \<longrightarrow>
      isl (snd (main env a)) \<and>
      (\<forall>ev \<in> set (fst (main env a)). event_mode ev \<noteq> Some m) \<and>
      (modes a = [m] \<and> raises env (Probe (device_of a)) = None \<longrightarrow>
         main env a =
           ([Probe (device_of a), Resolve (expanduser env d)],
            Inl (FileNotFoundError
                   (''[Errno 2] No such file or directory: '' @ expanduser env d))))) \<and>
   (Construct (App cls c dir tr) \<in> set (fst (main env a)) \<longrightarrow>
      (\<exists>m' d'. c = ctor_of m' \<and> m' \<in> set (modes a) \<and> pos_of m' a = Some d' \<and>
         path_exists env (expanduser env d') \<and> dir = realpath env (expanduser env d')))"
  using missing_dir_raises [of m a d env] missing_dir_no_event [of m a d env]
    missing_dir_single [of a m d env] construct_resolved [of cls c dir tr env a]
  by blast

theorem missing_directory_is_fatal_witness:
  "Train \<in> set (modes example_missing_dir) \<and>
   pos_of Train example_missing_dir = Some ''nowhere'' \<and>
   \<not> path_exists example_env (expanduser example_env ''nowhere'') \<and>
   main example_env example_missing_dir =
     ([Probe Cpu, Resolve ''nowhere''],
      Inl (FileNotFoundError ''[Errno 2] No such file or directory: nowhere'')) \<and>
   Construct (App SpeechActivityDetection Init ''/home/exp'' True)
     \<in> set (fst (main example_env example_train)) \<and>
   path_exists example_env ''exp''"
proof -
  have c: "Construct (App SpeechActivityDetection Init ''/home/exp'' True)
      \<in> set (fst (main example_env example_train))"
    by (simp add: main_example_train sad_train_app_def)
  have e: "path_exists example_env ''exp''"
    by (simp add: example_env_def)
  show ?thesis
    using main_example_missing_dir_facts c e
      missing_directory_is_fatal [where m = Train and a = example_missing_dir
        and d = "''nowhere''" and env = example_env]
    by simp
qed

subsection \<open>Several modes at once\<close>

lemma step_shape_when_mode:
  assumes "flag \<Longrightarrow> one_call m ps (branch ps)"
  shows "step_shape flag m ps (when_mode flag branch ps)"
  using assms by (auto simp: step_shape_def when_mode_def one_call_def)

lemma three_steps_in_sequence:
  fixes r1 :: "('f, 'f params) run" and r2 r3 :: "'f params \<Rightarrow> ('f, 'f params) run"
  assumes s1: "step_shape f1 Train p0 r1"
    and s2: "\<And>ps. step_shape f2 Validate ps (r2 ps)"
    and s3: "\<And>ps. step_shape f3 Apply ps (r3 ps)"
  defines "r \<equiv> bind_run r1 (\<lambda>ps. bind_run (r2 ps) (\<lambda>ps. r3 ps))"
  defines "ms \<equiv> (if f1 then [Train] else []) @ (if f2 then [Validate] else []) @
                  (if f3 then [Apply] else [])"
  shows "prefix (map fst (lifecycle_calls (fst r))) ms \<and>
     sorted_wrt (\<lambda>kw kw'. fst ` set kw \<subseteq> fst ` set kw') (map snd (lifecycle_calls (fst r))) \<and>
     (\<forall>ps. snd r = Inr ps \<longrightarrow>
        map fst (lifecycle_calls (fst r)) = ms \<and>
        (ms \<noteq> [] \<longrightarrow> snd (last (lifecycle_calls (fst r))) = ps))"
proof (cases "snd r1")
  case (Inl e)
  with s1 show ?thesis
    by (auto simp: r_def ms_def step_shape_def fst_bind_run snd_bind_run)
next
  case 1: (Inr p1)
  show ?thesis
  proof (cases "snd (r2 p1)")
    case (Inl e)
    with 1 s1 s2 [of p1] show ?thesis
      by (auto simp: r_def ms_def step_shape_def fst_bind_run snd_bind_run)
  next
    case 2: (Inr p2)
    with 1 s1 s2 [of p1] s3 [of p2] show ?thesis
      by (auto simp: r_def ms_def step_shape_def fst_bind_run snd_bind_run)
  qed
qed

text \<open>
  Claim C6. Whatever combination of mode commands is true, the lifecycle calls of a run
  are made in the order \<^verbatim>\<open>train\<close>, \<^verbatim>\<open>validate\<close>, \<^verbatim>\<open>apply\<close>, one per selected mode, until an
  exception stops the run; a run that returns has made exactly the calls of the selected
  modes. The calls share the one dictionary \<^verbatim>\<open>params\<close>: the keys passed to a call are
  still passed to every later call, and the dictionary a returning run ends with is the
  one passed to its last call.
\<close>

theorem modes_run_in_sequence:
  "prefix (map fst (lifecycle_calls (fst (main env a)))) (modes a) \<and>
   sorted_wrt (\<lambda>kw kw'. fst ` set kw \<subseteq> fst ` set kw')
     (map snd (lifecycle_calls (fst (main env a)))) \<and>
   (\<forall>ps. snd (main env a) = Inr ps \<longrightarrow>
      map fst (lifecycle_calls (fst (main env a))) = modes a \<and>
      (modes a \<noteq> [] \<longrightarrow> snd (last (lifecycle_calls (fst (main env a)))) = ps))"
proof -
  let ?r1 = "when_mode (cmd_train a) (train_branch env a) (params0 a)"
  let ?r2 = "when_mode (cmd_validate a) (validate_branch env a)"
  let ?r3 = "when_mode (cmd_apply a) (apply_branch env a)"
  let ?r = "bind_run ?r1 (\<lambda>ps. bind_run (?r2 ps) (\<lambda>ps. ?r3 ps))"
  have body: "prefix (map fst (lifecycle_calls (fst ?r))) (modes a) \<and>
     sorted_wrt (\<lambda>kw kw'. fst ` set kw \<subseteq> fst ` set kw') (map snd (lifecycle_calls (fst ?r))) \<and>
     (\<forall>ps. snd ?r = Inr ps \<longrightarrow>
        map fst (lifecycle_calls (fst ?r)) = modes a \<and>
        (modes a \<noteq> [] \<longrightarrow> snd (last (lifecycle_calls (fst ?r))) = ps))"
  proof -
    have s1: "step_shape (cmd_train a) Train (params0 a) ?r1"
      by (rule step_shape_when_mode) (rule train_branch_one_call)
    have s2: "step_shape (cmd_validate a) Validate ps (?r2 ps)" for ps
      by (rule step_shape_when_mode) (rule validate_branch_one_call)
    have s3: "step_shape (cmd_apply a) Apply ps (?r3 ps)" for ps
      by (rule step_shape_when_mode) (rule apply_branch_one_call)
    from three_steps_in_sequence [OF s1 s2 s3] show ?thesis
      unfolding modes_def .
  qed
  show ?thesis
  proof (cases "raises env (Probe (device_of a))")
    case None
    then have "fst (main env a) = Probe (device_of a) # fst ?r" "snd (main env a) = snd ?r"
      by (simp_all add: main_steps fst_bind_run snd_bind_run)
    with body show ?thesis by simp
  next
    case (Some e)
    then have "fst (main env a) = [Probe (device_of a)]" "snd (main env a) = Inl e"
      by (simp_all add: main_steps fst_bind_run snd_bind_run)
    then show ?thesis by simp
  qed
qed

theorem modes_run_in_sequence_witness:
  "modes example_all_modes = [Train, Validate, Apply] \<and>
   lifecycle_calls (fst (main example_env example_all_modes)) =
     [(Train, example_train_kw), (Validate, example_all_modes_validate_kw),
      (Apply, example_all_modes_apply_kw)] \<and>
   snd (main example_env example_all_modes) = Inr example_all_modes_apply_kw \<and>
   fst ` set example_train_kw \<subseteq> fst ` set example_all_modes_validate_kw \<and>
   fst ` set example_all_modes_validate_kw \<subseteq> fst ` set example_all_modes_apply_kw \<and>
   map_of example_all_modes_validate_kw ''warm_start'' = Some (PInt 0)"
proof -
  have m: "modes example_all_modes = [Train, Validate, Apply]"
    by (simp add: modes_def example_all_modes_def no_options_def)
  have c: "lifecycle_calls (fst (main example_env example_all_modes)) =
     [(Train, example_train_kw), (Validate, example_all_modes_validate_kw),
      (Apply, example_all_modes_apply_kw)]"
    by (simp add: main_example_all_modes)
  have s: "snd (main example_env example_all_modes) = Inr example_all_modes_apply_kw"
    by (simp add: main_example_all_modes)
  have w: "map_of example_all_modes_validate_kw ''warm_start'' = Some (PInt 0)"
    by (simp add: example_all_modes_validate_kw_def)
  show ?thesis
    using m c s w modes_run_in_sequence [of example_env example_all_modes]
    by simp
qed

subsection \<open>Failure of the model registry\<close>
















end
